theory Spec2Isabelle
  imports Complex_Main
begin

section \<open>Python and torch primitives used by the pipeline\<close>

text \<open>
  The development embeds \<^verbatim>\<open>src/ace_step/pipeline_ace_step.py\<close>. Python floats and
  tensor elements are real numbers, Python integers are \<open>int\<close>, and every raise of the
  source is a value \<open>Inl e\<close> of the result type.
\<close>

datatype py_error =
    ZeroDivisionError | TypeError | AttributeError | UnboundLocalError
  | IndexError | RuntimeError | AssertionError | ValueError

definition bind_err :: "py_error + 'a \<Rightarrow> ('a \<Rightarrow> py_error + 'b) \<Rightarrow> py_error + 'b" where
  "bind_err m k = (case m of Inl e \<Rightarrow> Inl e | Inr x \<Rightarrow> k x)"

fun all_err :: "(py_error + 'a) list \<Rightarrow> py_error + 'a list" where
  "all_err [] = Inr []"
| "all_err (m # ms) =
     (case m of Inl e \<Rightarrow> Inl e
      | Inr x \<Rightarrow> (case all_err ms of Inl e \<Rightarrow> Inl e | Inr xs \<Rightarrow> Inr (x # xs)))"

definition py_int :: "real \<Rightarrow> int" where
  \<comment> \<open>\<^verbatim>\<open>int(x)\<close> and \<^verbatim>\<open>.long()\<close>: truncation toward zero.\<close>
  "py_int x = (if 0 \<le> x then \<lfloor>x\<rfloor> else \<lceil>x\<rceil>)"

definition py_index :: "'a list \<Rightarrow> int \<Rightarrow> py_error + 'a" where
  \<comment> \<open>\<^verbatim>\<open>xs[i]\<close>: \<^verbatim>\<open>xs[-1]\<close> is the last element; outside \<open>-len..len-1\<close> it raises\<close>
  "py_index xs i =
     (if 0 \<le> i \<and> i < int (length xs) then Inr (xs ! nat i)
      else if i < 0 \<and> - int (length xs) \<le> i then Inr (xs ! nat (int (length xs) + i))
      else Inl IndexError)"

definition slice_bound :: "nat \<Rightarrow> int \<Rightarrow> nat" where
  \<comment> \<open>a bound of the slice \<^verbatim>\<open>xs[a:b]\<close>, clamped into \<open>0..n\<close> as Python does.\<close>
  "slice_bound n i = (if i < 0 then nat (max 0 (i + int n)) else min n (nat i))"

definition frames_of_seconds :: "real \<Rightarrow> int" where
  \<comment> \<open>\<^verbatim>\<open>int(seconds * 44100 / 512 / 8)\<close>\<close>
  "frames_of_seconds s = py_int (s * 44100 / 512 / 8)"

subsection \<open>Latent tensors\<close>

text \<open>
  A latent is a 4-dimensional array \<open>[batch, channel, feature, frame]\<close>: its four extents
  and its elements by index. Only the elements inside the extents are meaningful.
\<close>

datatype tensor =
  Tensor (batch: nat) (chan: nat) (feat: nat) (frames: nat)
         (elem: "nat \<Rightarrow> nat \<Rightarrow> nat \<Rightarrow> nat \<Rightarrow> real")

definition same_shape :: "tensor \<Rightarrow> tensor \<Rightarrow> bool" where
  "same_shape x y \<longleftrightarrow>
     batch x = batch y \<and> chan x = chan y \<and> feat x = feat y \<and> frames x = frames y"

definition bdim :: "nat \<Rightarrow> nat \<Rightarrow> nat option" where
  \<comment> \<open>torch broadcasting of two extents: equal, or one of them is 1\<close>
  "bdim m n = (if m = n then Some m else if m = 1 then Some n else if n = 1 then Some m else None)"

definition bix :: "nat \<Rightarrow> nat \<Rightarrow> nat \<Rightarrow> nat" where
  \<comment> \<open>the index into an operand of extent \<open>m\<close> for index \<open>i\<close> of a result of extent \<open>n\<close>\<close>
  "bix m n i = (if m = n then i else 0)"

definition bat :: "tensor \<Rightarrow> nat \<Rightarrow> nat \<Rightarrow> nat \<Rightarrow> nat \<Rightarrow> nat \<Rightarrow> nat \<Rightarrow> nat \<Rightarrow> nat \<Rightarrow> real" where
  \<comment> \<open>the element of \<open>x\<close> that broadcasting puts at a position of a result of the given shape\<close>
  "bat x nb nc nf nk b c f k =
     elem x (bix (batch x) nb b) (bix (chan x) nc c) (bix (feat x) nf f) (bix (frames x) nk k)"

definition scale :: "real \<Rightarrow> tensor \<Rightarrow> tensor" where
  \<comment> \<open>\<^verbatim>\<open>s * x\<close> for a scalar \<open>s\<close>\<close>
  "scale s x = Tensor (batch x) (chan x) (feat x) (frames x) (\<lambda>b c f k. s * elem x b c f k)"

definition ew2 :: "(real \<Rightarrow> real \<Rightarrow> real) \<Rightarrow> tensor \<Rightarrow> tensor \<Rightarrow> py_error + tensor" where
  \<comment> \<open>an elementwise binary operation with broadcasting; incompatible shapes raise\<close>
  "ew2 g x y =
     (case (bdim (batch x) (batch y), bdim (chan x) (chan y),
            bdim (feat x) (feat y), bdim (frames x) (frames y)) of
        (Some nb, Some nc, Some nf, Some nk) \<Rightarrow>
          Inr (Tensor nb nc nf nk
                (\<lambda>b c f k. g (bat x nb nc nf nk b c f k) (bat y nb nc nf nk b c f k)))
      | _ \<Rightarrow> Inl RuntimeError)"

definition add_t :: "tensor \<Rightarrow> tensor \<Rightarrow> py_error + tensor" where
  "add_t = ew2 (\<lambda>a b. a + b)"

definition sub_t :: "tensor \<Rightarrow> tensor \<Rightarrow> py_error + tensor" where
  "sub_t = ew2 (\<lambda>a b. a - b)"

definition mul_t :: "tensor \<Rightarrow> tensor \<Rightarrow> py_error + tensor" where
  "mul_t = ew2 (\<lambda>a b. a * b)"

definition where_eq1 :: "tensor \<Rightarrow> tensor \<Rightarrow> tensor \<Rightarrow> py_error + tensor" where
  \<comment> \<open>\<^verbatim>\<open>torch.where(msk == 1.0, x, y)\<close>\<close>
  "where_eq1 msk x y =
     (case (Option.bind (bdim (batch msk) (batch x)) (\<lambda>n. bdim n (batch y)),
            Option.bind (bdim (chan msk) (chan x)) (\<lambda>n. bdim n (chan y)),
            Option.bind (bdim (feat msk) (feat x)) (\<lambda>n. bdim n (feat y)),
            Option.bind (bdim (frames msk) (frames x)) (\<lambda>n. bdim n (frames y))) of
        (Some nb, Some nc, Some nf, Some nk) \<Rightarrow>
          Inr (Tensor nb nc nf nk
                (\<lambda>b c f k. if bat msk nb nc nf nk b c f k = 1
                             then bat x nb nc nf nk b c f k else bat y nb nc nf nk b c f k))
      | _ \<Rightarrow> Inl RuntimeError)"

definition rsub :: "real \<Rightarrow> tensor \<Rightarrow> tensor" where
  \<comment> \<open>\<^verbatim>\<open>s - x\<close> for a scalar \<open>s\<close>\<close>
  "rsub s x = Tensor (batch x) (chan x) (feat x) (frames x) (\<lambda>b c f k. s - elem x b c f k)"

definition zeros :: "nat \<Rightarrow> nat \<Rightarrow> nat \<Rightarrow> nat \<Rightarrow> tensor" where
  "zeros nb nc nf nk = Tensor nb nc nf nk (\<lambda>b c f k. 0)"

definition slice_frames :: "tensor \<Rightarrow> int option \<Rightarrow> int option \<Rightarrow> tensor" where
  \<comment> \<open>\<^verbatim>\<open>x[:, :, :, start:stop]\<close>\<close>
  "slice_frames x start stop =
     (let n = frames x;
          s = (case start of None \<Rightarrow> 0 | Some i \<Rightarrow> slice_bound n i);
          e = (case stop of None \<Rightarrow> n | Some j \<Rightarrow> slice_bound n j)
      in Tensor (batch x) (chan x) (feat x) (e - s) (\<lambda>b c f k. elem x b c f (s + k)))"

definition set_frames :: "tensor \<Rightarrow> int option \<Rightarrow> int option \<Rightarrow> real \<Rightarrow> tensor" where
  \<comment> \<open>\<^verbatim>\<open>x[:, :, :, start:stop] = v\<close>\<close>
  "set_frames x start stop v =
     (let n = frames x;
          s = (case start of None \<Rightarrow> 0 | Some i \<Rightarrow> slice_bound n i);
          e = (case stop of None \<Rightarrow> n | Some j \<Rightarrow> slice_bound n j)
      in Tensor (batch x) (chan x) (feat x) n
           (\<lambda>b c f k. if s \<le> k \<and> k < e then v else elem x b c f k))"

definition pad_frames :: "tensor \<Rightarrow> int \<Rightarrow> int \<Rightarrow> py_error + tensor" where
  \<comment> \<open>\<^verbatim>\<open>torch.nn.functional.pad(x, (l, r), "constant", 0)\<close>; a negative amount crops\<close>
  "pad_frames x l r =
     (let n = int (frames x) + l + r
      in if n < 0 then Inl RuntimeError
         else Inr (Tensor (batch x) (chan x) (feat x) (nat n)
                (\<lambda>b c f k. let j = int k - l
                             in if 0 \<le> j \<and> j < int (frames x) then elem x b c f (nat j) else 0)))"

datatype axis = BatchAxis | FrameAxis

definition cat2 :: "axis \<Rightarrow> tensor \<Rightarrow> tensor \<Rightarrow> py_error + tensor" where
  \<comment> \<open>\<^verbatim>\<open>torch.cat([x, y], dim)\<close> for \<^verbatim>\<open>dim=0\<close> and \<^verbatim>\<open>dim=-1\<close>: the other extents must agree\<close>
  "cat2 ax x y =
     (case ax of
        FrameAxis \<Rightarrow>
          if batch x = batch y \<and> chan x = chan y \<and> feat x = feat y
          then Inr (Tensor (batch x) (chan x) (feat x) (frames x + frames y)
                 (\<lambda>b c f k. if k < frames x then elem x b c f k else elem y b c f (k - frames x)))
          else Inl RuntimeError
      | BatchAxis \<Rightarrow>
          if chan x = chan y \<and> feat x = feat y \<and> frames x = frames y
          then Inr (Tensor (batch x + batch y) (chan x) (feat x) (frames x)
                 (\<lambda>b c f k. if b < batch x then elem x b c f k else elem y (b - batch x) c f k))
          else Inl RuntimeError)"

fun cat_onto :: "axis \<Rightarrow> tensor \<Rightarrow> tensor list \<Rightarrow> py_error + tensor" where
  "cat_onto ax acc [] = Inr acc"
| "cat_onto ax acc (y # ys) =
     (case cat2 ax acc y of Inl e \<Rightarrow> Inl e | Inr z \<Rightarrow> cat_onto ax z ys)"

definition torch_cat :: "axis \<Rightarrow> tensor option list \<Rightarrow> py_error + tensor" where
  \<comment> \<open>\<^verbatim>\<open>torch.cat(list, dim)\<close>: an element that is \<^verbatim>\<open>None\<close> raises TypeError\<close>
  "torch_cat ax xs =
     (if None \<in> set xs then Inl TypeError
      else (case map the xs of [] \<Rightarrow> Inl RuntimeError | x # ys \<Rightarrow> cat_onto ax x ys))"

subsection \<open>Nearest schedule index and pre-noising (\<^verbatim>\<open>add_latents_noise\<close>)\<close>

fun argmin_scan :: "real list \<Rightarrow> nat \<Rightarrow> nat \<Rightarrow> real \<Rightarrow> nat" where
  "argmin_scan [] i best bv = best"
| "argmin_scan (d # ds) i best bv =
     (if d < bv then argmin_scan ds (Suc i) i d else argmin_scan ds (Suc i) best bv)"

definition argmin :: "real list \<Rightarrow> py_error + nat" where
  \<comment> \<open>\<^verbatim>\<open>torch.argmin\<close> over one row: the first index of the smallest value\<close>
  "argmin ds = (case ds of [] \<Rightarrow> Inl IndexError | d # rest \<Rightarrow> Inr (argmin_scan rest 1 0 d))"

definition nearest_idx :: "real \<Rightarrow> real list \<Rightarrow> py_error + nat" where
  \<comment> \<open>\<^verbatim>\<open>torch.argmin(torch.cdist(indices, timesteps), dim=1)\<close> for one row of \<^verbatim>\<open>indices\<close>\<close>
  "nearest_idx q ts = argmin (map (\<lambda>t. \<bar>q - t\<bar>) ts)"

definition add_latents_noise ::
  "tensor \<Rightarrow> real \<Rightarrow> tensor \<Rightarrow> real list \<Rightarrow> real list \<Rightarrow> py_error + (tensor \<times> real)" where
  \<comment> \<open>the last two arguments are \<^verbatim>\<open>scheduler.timesteps\<close> and \<^verbatim>\<open>scheduler.sigmas\<close>;
      \<^verbatim>\<open>scheduler.config.num_train_timesteps\<close> is 1000\<close>
  "add_latents_noise gt_latents variance noise sched_ts sched_sig =
     (let bsz = batch gt_latents;
          indices = replicate bsz (real_of_int (py_int (variance * 1000)))
      in bind_err (all_err (map (\<lambda>q. nearest_idx q sched_ts) indices)) (\<lambda>nearest.
         bind_err (all_err (map (\<lambda>j. py_index sched_sig (int j)) nearest)) (\<lambda>sigma.
         let sigma_t = Tensor bsz 1 1 1 (\<lambda>b c f k. sigma ! b) in
         bind_err (mul_t sigma_t noise) (\<lambda>noisy_part.
         bind_err (mul_t (rsub 1 sigma_t) gt_latents) (\<lambda>kept_part.
         bind_err (add_t noisy_part kept_part) (\<lambda>noisy_image.
         bind_err (py_index indices 0) (\<lambda>init_timestep.
         Inr (noisy_image, init_timestep))))))))"

section \<open>Seeding the per-row generators (\<^verbatim>\<open>set_seeds\<close>)\<close>

text \<open>
  The seeds argument is a string, a list, an integer or \<^verbatim>\<open>None\<close>; a list may hold
  integers or strings (the repaint, edit and extend nodes of \<^verbatim>\<open>ace_step_nodes.py\<close> pass
  \<^verbatim>\<open>[str(seed)]\<close>). Python's \<^verbatim>\<open>int(str)\<close> and \<^verbatim>\<open>str.isdigit\<close> are parameters; the
  process-wide torch generator that \<^verbatim>\<open>torch.randint\<close> draws from is an explicit state.
\<close>

datatype seed_item = IntItem int | StrItem string

datatype seeds_arg = NoSeeds | StrSeeds string | ListSeeds "seed_item list" | IntSeeds int

datatype processed_seeds = PInt int | PList "int list"

fun split_comma :: "string \<Rightarrow> string list" where
  "split_comma [] = [[]]"
| "split_comma (c # cs) =
     (if c = CHR '','' then [] # split_comma cs
      else (case split_comma cs of [] \<Rightarrow> [[c]] | w # ws \<Rightarrow> (c # w) # ws))"

definition is_int_item :: "seed_item \<Rightarrow> bool" where
  "is_int_item x = (case x of IntItem n \<Rightarrow> True | StrItem s \<Rightarrow> False)"

definition int_of_item :: "seed_item \<Rightarrow> int" where
  "int_of_item x = (case x of IntItem n \<Rightarrow> n | StrItem s \<Rightarrow> 0)"

definition processed_input_seeds ::
  "(string \<Rightarrow> int option) \<Rightarrow> (string \<Rightarrow> bool) \<Rightarrow> seeds_arg \<Rightarrow> py_error + processed_seeds option" where
  \<comment> \<open>lines 146-157; \<open>int_of_str s = None\<close> when \<^verbatim>\<open>int(s)\<close> raises ValueError\<close>
  "processed_input_seeds int_of_str isdigit manual_seeds =
     (case manual_seeds of
        NoSeeds \<Rightarrow> Inr None
      | StrSeeds s \<Rightarrow>
          if CHR '','' \<in> set s
          then bind_err
                 (all_err (map (\<lambda>w. case int_of_str w of None \<Rightarrow> Inl ValueError | Some n \<Rightarrow> Inr n)
                               (split_comma s)))
                 (\<lambda>ns. Inr (Some (PList ns)))
          else if isdigit s
          then (case int_of_str s of None \<Rightarrow> Inl ValueError | Some n \<Rightarrow> Inr (Some (PInt n)))
          else Inr None
      | ListSeeds xs \<Rightarrow>
          if list_all is_int_item xs
          then (if length xs > 0 then Inr (Some (PList (map int_of_item xs))) else Inr None)
          else Inr None
      | IntSeeds n \<Rightarrow> Inr (Some (PInt n)))"

fun seed_rows ::
  "('r \<Rightarrow> int \<times> 'r) \<Rightarrow> processed_seeds option \<Rightarrow> nat list \<Rightarrow> 'r \<Rightarrow> py_error + (int list \<times> 'r)" where
  \<comment> \<open>the loop of lines 162-176 over the rows \<open>i\<close>; \<open>randint\<close> is
      \<^verbatim>\<open>torch.randint(0, 2**32, (1,)).item()\<close> on the global generator state\<close>
  "seed_rows randint p [] r = Inr ([], r)"
| "seed_rows randint p (i # rows) r =
     (case (case p of
              None \<Rightarrow> Inr (randint r)
            | Some (PInt n) \<Rightarrow> Inr (n, r)
            | Some (PList xs) \<Rightarrow>
                (if i < length xs then Inr (xs ! i, r)
                 else (case py_index xs (- 1) of Inl e \<Rightarrow> Inl e | Inr n \<Rightarrow> Inr (n, r)))) of
        Inl e \<Rightarrow> Inl e
      | Inr (current_seed_for_generator, r') \<Rightarrow>
          (case seed_rows randint p rows r' of
             Inl e \<Rightarrow> Inl e
           | Inr (actual_seeds, r'') \<Rightarrow> Inr (current_seed_for_generator # actual_seeds, r'')))"

definition set_seeds ::
  "(string \<Rightarrow> int option) \<Rightarrow> (string \<Rightarrow> bool) \<Rightarrow> ('r \<Rightarrow> int \<times> 'r) \<Rightarrow> (int \<Rightarrow> 'g) \<Rightarrow>
   nat \<Rightarrow> seeds_arg \<Rightarrow> 'r \<Rightarrow> py_error + (('g list \<times> int list) \<times> 'r)" where
  \<comment> \<open>\<open>manual_seed n\<close> is a fresh \<^verbatim>\<open>torch.Generator\<close> after \<^verbatim>\<open>manual_seed(n)\<close>; the result
      is the pair the source returns and the global generator state left behind\<close>
  "set_seeds int_of_str isdigit randint manual_seed batch_size manual_seeds r =
     bind_err (processed_input_seeds int_of_str isdigit manual_seeds) (\<lambda>p.
     bind_err (seed_rows randint p [0..<batch_size] r) (\<lambda>(actual_seeds, r').
     Inr ((map manual_seed actual_seeds, actual_seeds), r')))"

section \<open>The external collaborators\<close>

text \<open>
  The transformer, the schedulers, \<^verbatim>\<open>retrieve_timesteps\<close>, \<^verbatim>\<open>randn_tensor\<close> and the
  guidance functions of \<^verbatim>\<open>ace_step.apg_guidance\<close> are not part of the pipeline file: they
  are the fields of an environment. \<open>'c\<close> is the type of the conditioning tensors, \<open>'h\<close> of
  the encoder outputs, \<open>'mb\<close> of a \<^verbatim>\<open>MomentumBuffer\<close>, \<open>'ss\<close> of a scheduler object and \<open>'g\<close>
  of a \<^verbatim>\<open>torch.Generator\<close>. A call that mutates an object returns the object's new state.
\<close>

record ('c, 'h, 'mb, 'ss, 'g) env =
  shape0 :: "'c \<Rightarrow> nat"
  zeros_like :: "'c \<Rightarrow> 'c"
  cat0 :: "'c \<Rightarrow> 'c \<Rightarrow> 'c"
  FlowMatchEulerDiscreteScheduler :: "'ss"
  FlowMatchHeunDiscreteScheduler :: "'ss"
  retrieve_timesteps :: "'ss \<Rightarrow> int \<Rightarrow> (real list \<times> int) \<times> 'ss"
  retrieve_timesteps_sigmas :: "'ss \<Rightarrow> int \<Rightarrow> real list \<Rightarrow> (real list \<times> int) \<times> 'ss"
  scheduler_timesteps :: "'ss \<Rightarrow> real list"
  scheduler_sigmas :: "'ss \<Rightarrow> real list"
  scheduler_step :: "'ss \<Rightarrow> tensor \<Rightarrow> real \<Rightarrow> tensor \<Rightarrow> real \<Rightarrow> tensor \<times> 'ss"
  init_step_index :: "'ss \<Rightarrow> real \<Rightarrow> nat \<times> 'ss"
  randn_values :: "nat \<Rightarrow> nat \<Rightarrow> nat \<Rightarrow> nat \<Rightarrow> 'g list \<Rightarrow>
                   (nat \<Rightarrow> nat \<Rightarrow> nat \<Rightarrow> nat \<Rightarrow> real) \<times> 'g list"
  encode :: "'c \<Rightarrow> 'c \<Rightarrow> 'c \<Rightarrow> 'c \<Rightarrow> 'c \<Rightarrow> 'h \<times> 'h"
  encode_with_temperature :: "'c \<Rightarrow> 'c \<Rightarrow> 'c \<Rightarrow> 'c \<Rightarrow> 'c \<Rightarrow> 'h"
  decode :: "tensor \<Rightarrow> nat \<times> nat \<Rightarrow> 'h \<Rightarrow> 'h \<Rightarrow> nat \<Rightarrow> real \<Rightarrow> tensor"
  decode_with_temperature :: "tensor \<Rightarrow> nat \<times> nat \<Rightarrow> 'h \<Rightarrow> 'h \<Rightarrow> nat \<Rightarrow> real \<Rightarrow> tensor"
  transformer :: "tensor \<Rightarrow> nat \<times> nat \<Rightarrow> 'c \<Rightarrow> 'c \<Rightarrow> 'c \<Rightarrow> 'c \<Rightarrow> 'c \<Rightarrow> real \<Rightarrow> tensor"
  MomentumBuffer :: "'mb"
  apg_forward :: "tensor \<Rightarrow> tensor \<Rightarrow> real \<Rightarrow> 'mb option \<Rightarrow> tensor \<times> 'mb option"
  cfg_forward :: "tensor \<Rightarrow> tensor \<Rightarrow> real \<Rightarrow> tensor"
  cfg_zero_star :: "tensor \<Rightarrow> tensor \<Rightarrow> real \<Rightarrow> nat \<Rightarrow> int \<Rightarrow> bool \<Rightarrow> tensor"
  cfg_double_condition_forward :: "tensor \<Rightarrow> tensor \<Rightarrow> tensor \<Rightarrow> real \<Rightarrow> real \<Rightarrow> tensor"

definition randn_tensor ::
  "('c, 'h, 'mb, 'ss, 'g) env \<Rightarrow> nat \<Rightarrow> int \<Rightarrow> 'g list \<Rightarrow> py_error + (tensor \<times> 'g list)" where
  \<comment> \<open>\<^verbatim>\<open>randn_tensor(shape=(bsz, 8, 16, frame_length), generator=...)\<close>: a tensor of the
      requested shape whose elements the generators determine; a negative extent raises\<close>
  "randn_tensor E bsz frame_length gens =
     (if frame_length < 0 then Inl RuntimeError
      else (case randn_values E bsz 8 16 (nat frame_length) gens of
              (vals, gens') \<Rightarrow> Inr (Tensor bsz 8 16 (nat frame_length) vals, gens')))"

definition randn_like ::
  "('c, 'h, 'mb, 'ss, 'g) env \<Rightarrow> tensor \<Rightarrow> 'g list \<Rightarrow> tensor \<times> 'g list" where
  \<comment> \<open>\<^verbatim>\<open>randn_tensor(shape=x.shape, generator=...)\<close>\<close>
  "randn_like E x gens =
     (case randn_values E (batch x) (chan x) (feat x) (frames x) gens of
        (vals, gens') \<Rightarrow> (Tensor (batch x) (chan x) (feat x) (frames x) vals, gens'))"

definition bound :: "'a option \<Rightarrow> py_error + 'a" where
  \<comment> \<open>reading a local variable that no assignment has reached\<close>
  "bound v = (case v of None \<Rightarrow> Inl UnboundLocalError | Some x \<Rightarrow> Inr x)"

section \<open>\<^verbatim>\<open>text2music_diffusion_process\<close>\<close>

record ('c, 'g) t2m_args =
  duration :: real
  encoder_text_hidden_states :: 'c
  text_attention_mask :: 'c
  speaker_embds :: 'c
  lyric_token_ids :: 'c
  lyric_mask :: 'c
  random_generators :: "'g list"
  infer_steps :: int
  guidance_scale :: real
  omega_scale :: real
  scheduler_type :: string
  cfg_type :: string
  zero_steps :: int
  use_zero_init :: bool
  guidance_interval :: real
  guidance_interval_decay :: real
  min_guidance_scale :: real
  oss_steps :: "int list"
  encoder_text_hidden_states_null :: "'c option"
  use_erg_lyric :: bool
  use_erg_diffusion :: bool
  retake_random_generators :: "'g list"
  retake_variance :: real
  add_retake_noise :: bool
  guidance_scale_text :: "real option"
  guidance_scale_lyric :: "real option"
  repaint_start :: real
  repaint_end :: real
  src_latents :: "tensor option"
  audio2audio_enable :: bool
  ref_audio_strength :: real
  ref_latents :: "tensor option"

definition do_classifier_free_guidance :: "real \<Rightarrow> bool" where
  \<comment> \<open>lines 578-580 (and 341-343 of the flow-edit sampler)\<close>
  "do_classifier_free_guidance gs = (if gs = 0 \<or> gs = 1 then False else True)"

definition do_double_condition_guidance :: "real option \<Rightarrow> real option \<Rightarrow> bool" where
  \<comment> \<open>lines 582-589\<close>
  "do_double_condition_guidance gst gsl =
     (case gst of None \<Rightarrow> False
      | Some a \<Rightarrow> (case gsl of None \<Rightarrow> False | Some b \<Rightarrow> a > 1 \<and> b > 1))"

subsection \<open>Scheduler and timesteps (lines 602-649)\<close>

definition new_scheduler :: "('c, 'h, 'mb, 'ss, 'g) env \<Rightarrow> string \<Rightarrow> py_error + 'ss" where
  "new_scheduler E ty =
     (if ty = ''euler'' then Inr (FlowMatchEulerDiscreteScheduler E)
      else if ty = ''heun'' then Inr (FlowMatchHeunDiscreteScheduler E)
      else Inl UnboundLocalError)"

definition py_max :: "int list \<Rightarrow> int" where
  "py_max xs = fold max (tl xs) (hd xs)"

definition make_timesteps ::
  "('c, 'h, 'mb, 'ss, 'g) env \<Rightarrow> 'ss \<Rightarrow> int \<Rightarrow> int list \<Rightarrow>
   py_error + (real list \<times> int \<times> 'ss \<times> int)" where
  \<comment> \<open>the result is \<open>(timesteps, num_inference_steps, scheduler, infer_steps)\<close>; the branch
      for \<^verbatim>\<open>oss_steps\<close> reassigns \<^verbatim>\<open>infer_steps\<close>\<close>
  "make_timesteps E sched steps oss =
     (if length oss > 0 then
        (let steps' = py_max oss in
         case retrieve_timesteps E sched steps' of
           ((ts, n), sched1) \<Rightarrow>
             bind_err (all_err (map (\<lambda>j. py_index ts (j - 1)) oss)) (\<lambda>new_timesteps.
             let sigmas = map (\<lambda>t. t / 1000) new_timesteps in
             case retrieve_timesteps_sigmas E sched1 (int (length oss)) sigmas of
               ((ts2, n2), sched2) \<Rightarrow> Inr (ts2, n2, sched2, steps')))
      else
        (case retrieve_timesteps E sched steps of
           ((ts, n), sched1) \<Rightarrow> Inr (ts, n, sched1, steps)))"

subsection \<open>Retake, repaint and extend set-up (lines 658-776)\<close>

text \<open>
  The local variables the set-up leaves for the step loop. A variable that no assignment
  has reached is \<open>None\<close>.
\<close>

record retake_vars =
  frame_length :: int
  target_latents :: tensor
  is_repaint :: bool
  is_extend :: bool
  n_min :: "int option"
  x0 :: "tensor option"
  z0 :: "tensor option"
  zt_edit :: "tensor option"
  repaint_mask :: "tensor option"
  to_right_pad_gt_latents :: "tensor option"
  to_left_pad_gt_latents :: "tensor option"

definition max_infer_fame_length :: int where
  "max_infer_fame_length = py_int (240 * 44100 / 512 / 8)"

definition quarter_sine_blend :: "real \<Rightarrow> tensor \<Rightarrow> tensor \<Rightarrow> py_error + tensor" where
  \<comment> \<open>\<^verbatim>\<open>torch.cos(retake_variance) * target_latents + torch.sin(retake_variance) * retake_latents\<close>,
      \<open>v\<close> being the angle \<^verbatim>\<open>retake_variance * math.pi / 2\<close>\<close>
  "quarter_sine_blend v target retake = add_t (scale (cos v) target) (scale (sin v) retake)"

record extend_vars =
  gt_latents :: tensor
  ext_frame_length :: int
  left_pad_frame_length :: int
  right_pad_frame_length :: int
  right_trim_length :: int
  left_trim_length :: int
  ext_to_right :: "tensor option"
  ext_to_left :: "tensor option"

definition extend_left :: "int \<Rightarrow> extend_vars \<Rightarrow> py_error + extend_vars" where
  \<comment> \<open>lines 714-730\<close>
  "extend_left repaint_start_frame ev =
     (if repaint_start_frame < 0 then
        (let lp = \<bar>repaint_start_frame\<bar>;
             fl = lp + int (frames (gt_latents ev))
         in bind_err (pad_frames (gt_latents ev) lp 0) (\<lambda>extend_gt_latents.
            if fl > max_infer_fame_length then
              (let rt = fl - max_infer_fame_length;
                   cut = slice_frames extend_gt_latents None (Some max_infer_fame_length)
               in Inr (ev\<lparr>gt_latents := cut, ext_frame_length := max_infer_fame_length,
                          left_pad_frame_length := lp, right_trim_length := rt,
                          ext_to_right := Some (slice_frames cut (Some (- rt)) None)\<rparr>))
            else Inr (ev\<lparr>gt_latents := extend_gt_latents, ext_frame_length := fl,
                         left_pad_frame_length := lp\<rparr>)))
      else Inr ev)"

definition extend_right :: "int \<Rightarrow> int \<Rightarrow> extend_vars \<Rightarrow> py_error + extend_vars" where
  \<comment> \<open>lines 732-748\<close>
  "extend_right repaint_end_frame src_latents_length ev =
     (if repaint_end_frame > src_latents_length then
        (let rp = repaint_end_frame - int (frames (gt_latents ev));
             fl = int (frames (gt_latents ev)) + rp
         in bind_err (pad_frames (gt_latents ev) 0 rp) (\<lambda>extend_gt_latents.
            if fl > max_infer_fame_length then
              (let lt = fl - max_infer_fame_length;
                   cut = slice_frames extend_gt_latents (Some (- max_infer_fame_length)) None
               in Inr (ev\<lparr>gt_latents := cut, ext_frame_length := max_infer_fame_length,
                          right_pad_frame_length := rp, left_trim_length := lt,
                          ext_to_left := Some (slice_frames cut None (Some lt))\<rparr>))
            else Inr (ev\<lparr>gt_latents := extend_gt_latents, ext_frame_length := fl,
                         right_pad_frame_length := rp\<rparr>)))
      else Inr ev)"

definition zeros_latent :: "nat \<Rightarrow> int \<Rightarrow> py_error + tensor" where
  \<comment> \<open>\<^verbatim>\<open>torch.zeros((bsz, 8, 16, frame_length))\<close>\<close>
  "zeros_latent bsz fl = (if fl < 0 then Inl RuntimeError else Inr (zeros bsz 8 16 (nat fl)))"

definition extend_mask :: "nat \<Rightarrow> extend_vars \<Rightarrow> py_error + tensor" where
  \<comment> \<open>lines 750-756\<close>
  "extend_mask bsz ev =
     bind_err (zeros_latent bsz (ext_frame_length ev)) (\<lambda>m0.
     let m1 = (if left_pad_frame_length ev > 0
               then set_frames m0 None (Some (left_pad_frame_length ev)) 1 else m0);
         m2 = (if right_pad_frame_length ev > 0
               then set_frames m1 (Some (- right_pad_frame_length ev)) None 1 else m1)
     in Inr m2)"

definition extend_target :: "extend_vars \<Rightarrow> tensor \<Rightarrow> tensor \<Rightarrow> py_error + tensor" where
  \<comment> \<open>lines 758-774: the working latent spliced from retake noise and fresh noise, and
      the assertion on its frame count\<close>
  "extend_target ev target retake =
     (let padd_list =
            (if left_pad_frame_length ev > 0
             then [Some (slice_frames retake None (Some (left_pad_frame_length ev)))] else [])
            @ [Some (slice_frames target (Some (left_trim_length ev))
                       (Some (int (frames target) - right_trim_length ev)))]
            @ (if right_pad_frame_length ev > 0
               then [Some (slice_frames retake (Some (- right_pad_frame_length ev)) None)] else [])
      in bind_err (torch_cat FrameAxis padd_list) (\<lambda>t.
         if frames t = frames (gt_latents ev) then Inr t else Inl AssertionError))"

definition extend_setup ::
  "nat \<Rightarrow> tensor option \<Rightarrow> int \<Rightarrow> int \<Rightarrow> tensor \<Rightarrow> tensor \<Rightarrow> retake_vars \<Rightarrow>
   py_error + retake_vars" where
  \<comment> \<open>lines 704-776, the branch \<^verbatim>\<open>elif is_extend\<close>\<close>
  "extend_setup bsz src repaint_start_frame repaint_end_frame target retake rv =
     (case src of
        None \<Rightarrow> Inl AttributeError
      | Some gt \<Rightarrow>
          (let ev0 = \<lparr>gt_latents = gt, ext_frame_length = frame_length rv,
                      left_pad_frame_length = 0, right_pad_frame_length = 0,
                      right_trim_length = 0, left_trim_length = 0,
                      ext_to_right = None, ext_to_left = None\<rparr>
           in bind_err (extend_left repaint_start_frame ev0) (\<lambda>ev1.
              bind_err (extend_right repaint_end_frame (int (frames gt)) ev1) (\<lambda>ev.
              bind_err (extend_mask bsz ev) (\<lambda>m.
              bind_err (extend_target ev target retake) (\<lambda>t.
              Inr (rv\<lparr>frame_length := ext_frame_length ev, target_latents := t,
                       x0 := Some (gt_latents ev), z0 := Some t,
                       zt_edit := Some (gt_latents ev), repaint_mask := Some m,
                       to_right_pad_gt_latents := ext_to_right ev,
                       to_left_pad_gt_latents := ext_to_left ev\<rparr>)))))))"

definition retake_setup ::
  "('c, 'h, 'mb, 'ss, 'g) env \<Rightarrow> ('c, 'g) t2m_args \<Rightarrow> nat \<Rightarrow> int \<Rightarrow> int \<Rightarrow> tensor \<Rightarrow>
   py_error + retake_vars" where
  \<comment> \<open>lines 658-776; \<open>steps\<close> is \<^verbatim>\<open>infer_steps\<close> as the timestep set-up left it and
      \<open>fl\<close> the frame count of lines 613-618\<close>
  "retake_setup E a bsz steps fl target =
     (let rv0 = \<lparr>frame_length = fl, target_latents = target, is_repaint = False,
                 is_extend = False, n_min = None, x0 = None, z0 = None, zt_edit = None,
                 repaint_mask = None, to_right_pad_gt_latents = None,
                 to_left_pad_gt_latents = None\<rparr>
      in if add_retake_noise a then
           (let nm = py_int (real_of_int steps * (1 - retake_variance a));
                v = retake_variance a * pi / 2
            in bind_err (randn_tensor E bsz fl (retake_random_generators a)) (\<lambda>(retake_latents, g).
               let repaint_start_frame = frames_of_seconds (repaint_start a);
                   repaint_end_frame = frames_of_seconds (repaint_end a);
                   ext = (repaint_start_frame < 0 \<or> repaint_end_frame > fl);
                   rep = (repaint_end_frame - repaint_start_frame \<noteq> fl \<or> ext);
                   rv1 = rv0\<lparr>n_min := Some nm, x0 := src_latents a,
                             is_repaint := rep, is_extend := ext\<rparr>
               in if \<not> rep then
                    bind_err (quarter_sine_blend v target retake_latents) (\<lambda>t.
                    Inr (rv1\<lparr>target_latents := t\<rparr>))
                  else if \<not> ext then
                    bind_err (zeros_latent bsz fl) (\<lambda>m0.
                    let m = set_frames m0 (Some repaint_start_frame) (Some repaint_end_frame) 1 in
                    bind_err (quarter_sine_blend v target retake_latents) (\<lambda>blended.
                    bind_err (where_eq1 m blended target) (\<lambda>repaint_noise.
                    case src_latents a of
                      None \<Rightarrow> Inl AttributeError
                    | Some src \<Rightarrow>
                        Inr (rv1\<lparr>repaint_mask := Some m, zt_edit := Some src,
                                  z0 := Some repaint_noise\<rparr>))))
                  else extend_setup bsz (src_latents a) repaint_start_frame repaint_end_frame
                         target retake_latents rv1))
         else Inr rv0)"

subsection \<open>The step loop (lines 902-1052)\<close>

text \<open>
  Every call of the loop to the predictor, to a guidance function or to the scheduler's
  step is recorded, in order, in the list \<open>calls\<close> of the loop state.
\<close>

datatype cond_kind = FullCond | TextOnlyCond | NullCond

datatype call =
    Decode cond_kind | DecodeWithTemperature
  | CfgDoubleConditionForward | ApgForward | CfgForward | CfgZeroStar
  | SchedulerStep


definition is_fusion_call :: "call \<Rightarrow> bool" where
  "is_fusion_call c =
     (case c of CfgDoubleConditionForward \<Rightarrow> True | ApgForward \<Rightarrow> True
      | CfgForward \<Rightarrow> True | CfgZeroStar \<Rightarrow> True | _ \<Rightarrow> False)"

record ('h) loop_vars =
  timesteps :: "real list"
  bsz :: nat
  init_timestep :: real
  start_idx :: int
  end_idx :: int
  encoder_hidden_states :: 'h
  encoder_hidden_mask :: 'h
  encoder_hidden_states_null :: 'h
  encoder_hidden_states_no_lyric :: "'h option"
  rv :: retake_vars

record ('mb, 'ss) loop_state =
  latents :: tensor
  noise_pred :: "tensor option"
  momentum_buffer :: 'mb
  scheduler :: 'ss
  calls :: "call list"

definition current_guidance_scale ::
  "('c, 'g) t2m_args \<Rightarrow> int \<Rightarrow> int \<Rightarrow> nat \<Rightarrow> py_error + real" where
  \<comment> \<open>lines 921-933; \<^verbatim>\<open>/\<close> on two Python integers raises when the divisor is 0\<close>
  "current_guidance_scale a si ei i =
     (if guidance_interval_decay a > 0 then
        (if ei - si - 1 = 0 then Inl ZeroDivisionError
         else (let progress = real_of_int (int i - si) / real_of_int (ei - si - 1)
               in Inr (guidance_scale a
                       - (guidance_scale a - min_guidance_scale a) * progress
                         * guidance_interval_decay a)))
      else Inr (guidance_scale a))"

definition guided_noise_pred ::
  "('c, 'h, 'mb, 'ss, 'g) env \<Rightarrow> ('c, 'g) t2m_args \<Rightarrow> 'h loop_vars \<Rightarrow> nat \<Rightarrow> real \<Rightarrow>
   tensor \<Rightarrow> ('mb, 'ss) loop_state \<Rightarrow> py_error + (tensor option \<times> 'mb \<times> call list)" where
  \<comment> \<open>lines 920-1017: the branch inside the guidance interval. The result is the value
      of \<^verbatim>\<open>noise_pred\<close> after it, the momentum buffer and the calls made.\<close>
  "guided_noise_pred E a lv i t x st =
     bind_err (current_guidance_scale a (start_idx lv) (end_idx lv) i) (\<lambda>cgs.
     let am = (bsz lv, nat (frame_length (rv lv)));
         output_length = frames x;
         dd = do_double_condition_guidance (guidance_scale_text a) (guidance_scale_lyric a);
         noise_pred_with_cond =
           decode E x am (encoder_hidden_states lv) (encoder_hidden_mask lv) output_length t;
         noise_pred_with_only_text_cond =
           (if dd then
              (case encoder_hidden_states_no_lyric lv of
                 None \<Rightarrow> None
               | Some h \<Rightarrow> Some (decode E x am h (encoder_hidden_mask lv) output_length t))
            else None);
         noise_pred_uncond =
           (if use_erg_diffusion a
            then decode_with_temperature E x am (encoder_hidden_states_null lv)
                   (encoder_hidden_mask lv) output_length t
            else decode E x am (encoder_hidden_states_null lv)
                   (encoder_hidden_mask lv) output_length t);
         cs = [Decode FullCond]
              @ (if noise_pred_with_only_text_cond \<noteq> None then [Decode TextOnlyCond] else [])
              @ [if use_erg_diffusion a then DecodeWithTemperature else Decode NullCond]
     in case (if dd then noise_pred_with_only_text_cond else None) of
          Some only_text \<Rightarrow>
            (case (guidance_scale_text a, guidance_scale_lyric a) of
               (Some gst, Some gsl) \<Rightarrow>
                 Inr (Some (cfg_double_condition_forward E noise_pred_with_cond noise_pred_uncond
                              only_text gst gsl),
                      momentum_buffer st, cs @ [CfgDoubleConditionForward])
             | _ \<Rightarrow> Inl TypeError)
        | None \<Rightarrow>
            if cfg_type a = ''apg'' then
              (case apg_forward E noise_pred_with_cond noise_pred_uncond cgs
                      (Some (momentum_buffer st)) of
                 (np, mb) \<Rightarrow>
                   Inr (Some np, (case mb of None \<Rightarrow> momentum_buffer st | Some m \<Rightarrow> m),
                        cs @ [ApgForward]))
            else if cfg_type a = ''cfg'' then
              Inr (Some (cfg_forward E noise_pred_with_cond noise_pred_uncond cgs),
                   momentum_buffer st, cs @ [CfgForward])
            else if cfg_type a = ''cfg_star'' then
              Inr (Some (cfg_zero_star E noise_pred_with_cond noise_pred_uncond cgs i
                           (zero_steps a) (use_zero_init a)),
                   momentum_buffer st, cs @ [CfgZeroStar])
            else Inr (noise_pred st, momentum_buffer st, cs))"

definition unguided_noise_pred ::
  "('c, 'h, 'mb, 'ss, 'g) env \<Rightarrow> 'h loop_vars \<Rightarrow> real \<Rightarrow> tensor \<Rightarrow> ('mb, 'ss) loop_state \<Rightarrow>
   tensor option \<times> 'mb \<times> call list" where
  \<comment> \<open>lines 1018-1028: one forward pass with the full conditioning\<close>
  "unguided_noise_pred E lv t x st =
     (Some (decode E x (bsz lv, nat (frame_length (rv lv))) (encoder_hidden_states lv)
              (encoder_hidden_mask lv) (frames x) t),
      momentum_buffer st, [Decode FullCond])"

definition repaint_start_latents :: "retake_vars \<Rightarrow> real \<Rightarrow> py_error + tensor" where
  \<comment> \<open>lines 909-912, at \<^verbatim>\<open>i == n_min\<close>\<close>
  "repaint_start_latents r t =
     (let t_i = t / 1000 in
      bind_err (bound (x0 r)) (\<lambda>x.
      bind_err (bound (z0 r)) (\<lambda>z.
      bind_err (add_t (scale (1 - t_i) x) (scale t_i z)) (\<lambda>zt_src.
      bind_err (bound (zt_edit r)) (\<lambda>e.
      bind_err (add_t e zt_src) (\<lambda>s. sub_t s x))))))"

definition next_fraction :: "real list \<Rightarrow> nat \<Rightarrow> real" where
  \<comment> \<open>\<^verbatim>\<open>t_im1\<close> of lines 1032-1035\<close>
  "next_fraction ts i = (if i + 1 < length ts then ts ! (i + 1) / 1000 else 0)"

definition repaint_advance ::
  "retake_vars \<Rightarrow> real list \<Rightarrow> nat \<Rightarrow> real \<Rightarrow> tensor \<Rightarrow> tensor \<Rightarrow> py_error + tensor" where
  \<comment> \<open>lines 1031-1044: the manual Euler update and the splice by the repaint mask\<close>
  "repaint_advance r ts i t target np =
     (let t_i = t / 1000; t_im1 = next_fraction ts i in
      bind_err (add_t target (scale (t_im1 - t_i) np)) (\<lambda>prev_sample.
      bind_err (bound (x0 r)) (\<lambda>x.
      bind_err (bound (z0 r)) (\<lambda>z.
      bind_err (add_t (scale (1 - t_im1) x) (scale t_im1 z)) (\<lambda>zt_src.
      bind_err (bound (repaint_mask r)) (\<lambda>m.
      where_eq1 m prev_sample zt_src))))))"

definition loop_body ::
  "('c, 'h, 'mb, 'ss, 'g) env \<Rightarrow> ('c, 'g) t2m_args \<Rightarrow> 'h loop_vars \<Rightarrow> nat \<Rightarrow> real \<Rightarrow>
   ('mb, 'ss) loop_state \<Rightarrow> py_error + ('mb, 'ss) loop_state" where
  \<comment> \<open>one iteration of the loop of line 902, for index \<open>i\<close> and timestep \<open>t\<close>\<close>
  "loop_body E a lv i t st =
     (if t > init_timestep lv then Inr st
      else
        bind_err (if is_repaint (rv lv) then bound (n_min (rv lv)) else Inr 0) (\<lambda>nm.
        if is_repaint (rv lv) \<and> int i < nm then Inr st
        else
          bind_err (if is_repaint (rv lv) \<and> int i = nm
                    then repaint_start_latents (rv lv) t else Inr (latents st)) (\<lambda>target.
          bind_err (if start_idx lv \<le> int i \<and> int i < end_idx lv
                       \<and> do_classifier_free_guidance (guidance_scale a)
                    then guided_noise_pred E a lv i t target st
                    else Inr (unguided_noise_pred E lv t target st)) (\<lambda>(np, mb, cs).
          bind_err (bound np) (\<lambda>noise.
          if is_repaint (rv lv) \<and> int i \<ge> nm then
            bind_err (repaint_advance (rv lv) (timesteps lv) i t target noise) (\<lambda>target'.
            Inr (st\<lparr>latents := target', noise_pred := np, momentum_buffer := mb,
                     calls := calls st @ cs\<rparr>))
          else
            (case scheduler_step E (scheduler st) noise t target (omega_scale a) of
               (target', sched') \<Rightarrow>
                 Inr (st\<lparr>latents := target', noise_pred := np, momentum_buffer := mb,
                          scheduler := sched', calls := calls st @ cs @ [SchedulerStep]\<rparr>)))))))"

fun run_loop ::
  "('c, 'h, 'mb, 'ss, 'g) env \<Rightarrow> ('c, 'g) t2m_args \<Rightarrow> 'h loop_vars \<Rightarrow> nat \<Rightarrow> real list \<Rightarrow>
   ('mb, 'ss) loop_state \<Rightarrow> py_error + ('mb, 'ss) loop_state" where
  \<comment> \<open>\<^verbatim>\<open>for i, t in enumerate(timesteps)\<close>, from index \<open>i\<close> over the remaining timesteps\<close>
  "run_loop E a lv i [] st = Inr st"
| "run_loop E a lv i (t # ts) st =
     (case loop_body E a lv i t st of
        Inl e \<Rightarrow> Inl e
      | Inr st' \<Rightarrow> run_loop E a lv (Suc i) ts st')"

subsection \<open>Extend reassembly (lines 1054-1063)\<close>

definition extend_reassembly :: "retake_vars \<Rightarrow> tensor \<Rightarrow> py_error + tensor" where
  "extend_reassembly r target =
     (if is_extend r then
        bind_err (if to_right_pad_gt_latents r \<noteq> None
                  then torch_cat FrameAxis [Some target, to_right_pad_gt_latents r]
                  else Inr target) (\<lambda>t1.
        if to_left_pad_gt_latents r \<noteq> None
        then torch_cat BatchAxis [to_right_pad_gt_latents r, Some t1]
        else Inr t1)
      else Inr target)"

subsection \<open>The whole process (lines 537-1063)\<close>

definition initial_frame_length :: "('c, 'g) t2m_args \<Rightarrow> int" where
  \<comment> \<open>lines 613-618\<close>
  "initial_frame_length a =
     (case ref_latents a of
        Some r \<Rightarrow> int (frames r)
      | None \<Rightarrow> (case src_latents a of
                   Some s \<Rightarrow> int (frames s)
                 | None \<Rightarrow> frames_of_seconds (duration a)))"

definition prenoise ::
  "('c, 'h, 'mb, 'ss, 'g) env \<Rightarrow> ('c, 'g) t2m_args \<Rightarrow> 'ss \<Rightarrow> tensor \<Rightarrow>
   py_error + (tensor \<times> real)" where
  \<comment> \<open>lines 778-780: the initial latent and \<^verbatim>\<open>init_timestep\<close>\<close>
  "prenoise E a sched target =
     (case (if audio2audio_enable a then ref_latents a else None) of
        Some r \<Rightarrow> add_latents_noise r (1 - ref_audio_strength a) target
                    (scheduler_timesteps E sched) (scheduler_sigmas E sched)
      | None \<Rightarrow> Inr (target, 1000))"

definition guidance_start_idx :: "int \<Rightarrow> real \<Rightarrow> int" where
  \<comment> \<open>line 785\<close>
  "guidance_start_idx n gi = py_int (real_of_int n * ((1 - gi) / 2))"

definition guidance_end_idx :: "int \<Rightarrow> real \<Rightarrow> int" where
  \<comment> \<open>line 786\<close>
  "guidance_end_idx n gi = py_int (real_of_int n * (gi / 2 + 0.5))"

definition null_condition :: "('c, 'h, 'mb, 'ss, 'g) env \<Rightarrow> ('c, 'g) t2m_args \<Rightarrow> 'h" where
  \<comment> \<open>lines 824-848\<close>
  "null_condition E a =
     (if use_erg_lyric a then
        encode_with_temperature E
          (case encoder_text_hidden_states_null a of
             Some h \<Rightarrow> h | None \<Rightarrow> zeros_like E (encoder_text_hidden_states a))
          (text_attention_mask a) (zeros_like E (speaker_embds a))
          (lyric_token_ids a) (lyric_mask a)
      else
        fst (encode E (zeros_like E (encoder_text_hidden_states a)) (text_attention_mask a)
               (zeros_like E (speaker_embds a)) (zeros_like E (lyric_token_ids a))
               (lyric_mask a)))"

definition no_lyric_condition ::
  "('c, 'h, 'mb, 'ss, 'g) env \<Rightarrow> ('c, 'g) t2m_args \<Rightarrow> 'h option" where
  \<comment> \<open>lines 850-872\<close>
  "no_lyric_condition E a =
     (if do_double_condition_guidance (guidance_scale_text a) (guidance_scale_lyric a) then
        (if use_erg_lyric a then
           Some (encode_with_temperature E (encoder_text_hidden_states a) (text_attention_mask a)
                   (zeros_like E (speaker_embds a)) (lyric_token_ids a) (lyric_mask a))
         else
           Some (fst (encode E (encoder_text_hidden_states a) (text_attention_mask a)
                        (zeros_like E (speaker_embds a)) (zeros_like E (lyric_token_ids a))
                        (lyric_mask a))))
      else None)"

definition text2music_diffusion_process ::
  "('c, 'h, 'mb, 'ss, 'g) env \<Rightarrow> ('c, 'g) t2m_args \<Rightarrow> py_error + (tensor \<times> call list)" where
  \<comment> \<open>the result is the returned latent, with the calls the step loop made\<close>
  "text2music_diffusion_process E a =
     (let n_rows = shape0 E (encoder_text_hidden_states a) in
      bind_err (new_scheduler E (scheduler_type a)) (\<lambda>sched0.
      bind_err (make_timesteps E sched0 (infer_steps a) (oss_steps a)) (\<lambda>(ts, n, sched, steps).
      bind_err (randn_tensor E n_rows (initial_frame_length a) (random_generators a)) (\<lambda>(target, g).
      bind_err (retake_setup E a n_rows steps (initial_frame_length a) target) (\<lambda>r.
      bind_err (prenoise E a sched (target_latents r)) (\<lambda>(target', init_ts).
      let (ehs, ehm) = encode E (encoder_text_hidden_states a) (text_attention_mask a)
                         (speaker_embds a) (lyric_token_ids a) (lyric_mask a);
          lv = \<lparr>timesteps = ts, bsz = n_rows, init_timestep = init_ts,
                start_idx = guidance_start_idx n (guidance_interval a),
                end_idx = guidance_end_idx n (guidance_interval a),
                encoder_hidden_states = ehs, encoder_hidden_mask = ehm,
                encoder_hidden_states_null = null_condition E a,
                encoder_hidden_states_no_lyric = no_lyric_condition E a,
                rv = r\<rparr>;
          st0 = \<lparr>latents = target', noise_pred = None, momentum_buffer = MomentumBuffer E,
                 scheduler = sched, calls = []\<rparr>
      in bind_err (run_loop E a lv 0 ts st0) (\<lambda>st.
         bind_err (extend_reassembly r (latents st)) (\<lambda>out.
         Inr (out, calls st)))))))))"

section \<open>The flow-edit sampler (\<^verbatim>\<open>calc_v\<close> and \<^verbatim>\<open>flowedit_diffusion_process\<close>)\<close>

text \<open>
  The calls of the sampler are recorded with the trajectory they serve; a call of
  \<^verbatim>\<open>apg_forward\<close> is recorded with the \<^verbatim>\<open>momentum_buffer\<close> argument it received.
\<close>

datatype trajectory = SrcTrajectory | TarTrajectory

datatype 'mb edit_call =
    Transformer trajectory
  | ApgForwardWith trajectory "'mb option"
  | CfgForwardOn trajectory

record 'c edit_cond =
  src_text_hidden_states :: 'c
  src_text_attention_mask :: 'c
  src_speaker_embds :: 'c
  src_lyric_token_ids :: 'c
  src_lyric_mask :: 'c
  target_encoder_text_hidden_states :: 'c
  target_text_attention_mask :: 'c
  target_speaker_embeds :: 'c
  target_lyric_token_ids :: 'c
  target_lyric_mask :: 'c

definition chunk2 :: "tensor \<Rightarrow> py_error + (tensor \<times> tensor)" where
  \<comment> \<open>\<^verbatim>\<open>a, b = x.chunk(2)\<close>: two parts along the batch axis; fewer than two rows give one
      chunk and the unpacking raises\<close>
  "chunk2 x =
     (let n = batch x; h = (n + 1) div 2
      in if n < 2 then Inl ValueError
         else Inr (Tensor h (chan x) (feat x) (frames x) (elem x),
                   Tensor (n - h) (chan x) (feat x) (frames x) (\<lambda>b. elem x (h + b))))"

definition model_input :: "bool \<Rightarrow> tensor option \<Rightarrow> py_error + tensor" where
  \<comment> \<open>\<^verbatim>\<open>torch.cat([z, z]) if do_classifier_free_guidance else z\<close>, then \<^verbatim>\<open>.shape[0]\<close>\<close>
  "model_input do_cfg z =
     (if do_cfg then torch_cat BatchAxis [z, z]
      else (case z of None \<Rightarrow> Inl AttributeError | Some x \<Rightarrow> Inr x))"

definition calc_v ::
  "('c, 'h, 'mb, 'ss, 'g) env \<Rightarrow> tensor option \<Rightarrow> tensor option \<Rightarrow> real \<Rightarrow> 'c edit_cond \<Rightarrow>
   bool \<Rightarrow> real \<Rightarrow> real \<Rightarrow> string \<Rightarrow> nat \<times> nat \<Rightarrow> 'mb option \<Rightarrow> 'mb option \<Rightarrow> bool \<Rightarrow>
   py_error + ((tensor option \<times> tensor) \<times> 'mb option \<times> 'mb option \<times> 'mb edit_call list)" where
  \<comment> \<open>lines 226-317. The result is the returned pair, the two buffer arguments as the
      call leaves them, and the calls made.\<close>
  "calc_v E zt_src zt_tar t c do_cfg gs tgs cfg_ty am mb mb_tar return_src_pred =
     bind_err
       (if return_src_pred then
          bind_err (model_input do_cfg zt_src) (\<lambda>src_latent_model_input.
          let pred = transformer E src_latent_model_input am (src_text_hidden_states c)
                       (src_text_attention_mask c) (src_speaker_embds c)
                       (src_lyric_token_ids c) (src_lyric_mask c) t
          in if do_cfg then
               bind_err (chunk2 pred) (\<lambda>(with_cond, uncond).
               if cfg_ty = ''apg'' then
                 (case apg_forward E with_cond uncond gs mb of
                    (np, mb') \<Rightarrow>
                      Inr (Some np, mb', [Transformer SrcTrajectory,
                                          ApgForwardWith SrcTrajectory mb]))
               else if cfg_ty = ''cfg'' then
                 Inr (Some (cfg_forward E with_cond uncond gs), mb,
                      [Transformer SrcTrajectory, CfgForwardOn SrcTrajectory])
               else Inr (Some pred, mb, [Transformer SrcTrajectory]))
             else Inr (Some pred, mb, [Transformer SrcTrajectory]))
        else Inr (None, mb, []))
       (\<lambda>(noise_pred_src, mb1, cs1).
     bind_err (model_input do_cfg zt_tar) (\<lambda>tar_latent_model_input.
     let pred = transformer E tar_latent_model_input am (target_encoder_text_hidden_states c)
                  (target_text_attention_mask c) (target_speaker_embeds c)
                  (target_lyric_token_ids c) (target_lyric_mask c) t
     in if do_cfg then
          bind_err (chunk2 pred) (\<lambda>(with_cond, uncond).
          if cfg_ty = ''apg'' then
            (case apg_forward E with_cond uncond tgs mb_tar of
               (np, mb_tar') \<Rightarrow>
                 Inr ((noise_pred_src, np), mb1, mb_tar',
                      cs1 @ [Transformer TarTrajectory, ApgForwardWith TarTrajectory mb_tar]))
          else if cfg_ty = ''cfg'' then
            Inr ((noise_pred_src, cfg_forward E with_cond uncond tgs), mb1, mb_tar,
                 cs1 @ [Transformer TarTrajectory, CfgForwardOn TarTrajectory])
          else Inr ((noise_pred_src, pred), mb1, mb_tar, cs1 @ [Transformer TarTrajectory]))
        else Inr ((noise_pred_src, pred), mb1, mb_tar, cs1 @ [Transformer TarTrajectory])))"

record ('c, 'g) edit_args =
  edit_cond :: "'c edit_cond"
  edit_src_latents :: "tensor option"
  edit_random_generators :: "'g list"
  edit_infer_steps :: int
  edit_guidance_scale :: real
  edit_n_min :: real
  edit_n_max :: real
  edit_n_avg :: int

record ('mb, 'ss, 'g) edit_state =
  e_zt_edit :: tensor
  e_xt_tar :: "tensor option"
  e_generators :: "'g list"
  e_momentum_buffer :: 'mb
  e_momentum_buffer_tar :: 'mb
  e_scheduler :: 'ss
  e_calls :: "'mb edit_call list"

record 'c edit_vars =
  ev_cond :: "'c edit_cond"
  ev_do_cfg :: bool
  ev_guidance_scale :: real
  ev_attention_mask :: "nat \<times> nat"
  ev_x_src :: tensor
  ev_timesteps :: "real list"
  ev_n_min :: int
  ev_n_max :: int
  ev_n_avg :: int

definition kept_buffer :: "'mb \<Rightarrow> 'mb option \<Rightarrow> 'mb" where
  \<comment> \<open>the state of a buffer object after a call that was given it (or was not)\<close>
  "kept_buffer old new = (case new of None \<Rightarrow> old | Some m \<Rightarrow> m)"

fun average_v ::
  "('c, 'h, 'mb, 'ss, 'g) env \<Rightarrow> 'c edit_vars \<Rightarrow> real \<Rightarrow> nat list \<Rightarrow> tensor \<Rightarrow>
   ('mb, 'ss, 'g) edit_state \<Rightarrow> py_error + (tensor \<times> ('mb, 'ss, 'g) edit_state)" where
  \<comment> \<open>lines 430-464: the loop \<^verbatim>\<open>for k in range(n_avg)\<close>, from the accumulator
      \<^verbatim>\<open>V_delta_avg\<close>. The call of \<^verbatim>\<open>calc_v\<close> passes \<^verbatim>\<open>momentum_buffer\<close> only.\<close>
  "average_v E v t [] acc st = Inr (acc, st)"
| "average_v E v t (k # ks) acc st =
     (case randn_like E (ev_x_src v) (e_generators st) of
        (fwd_noise, gens) \<Rightarrow>
          (let t_i = t / 1000 in
           case add_t (scale (1 - t_i) (ev_x_src v)) (scale t_i fwd_noise) of
             Inl e \<Rightarrow> Inl e
           | Inr zt_src \<Rightarrow>
          (case bind_err (add_t (e_zt_edit st) zt_src) (\<lambda>s. sub_t s (ev_x_src v)) of
             Inl e \<Rightarrow> Inl e
           | Inr zt_tar \<Rightarrow>
          (case calc_v E (Some zt_src) (Some zt_tar) t (ev_cond v) (ev_do_cfg v)
                  (ev_guidance_scale v) (ev_guidance_scale v) ''apg'' (ev_attention_mask v)
                  (Some (e_momentum_buffer st)) None True of
             Inl e \<Rightarrow> Inl e
           | Inr ((vt_src, vt_tar), mb, mb_tar, cs) \<Rightarrow>
          (case bind_err (bound vt_src) (\<lambda>vs.
                bind_err (sub_t vt_tar vs) (\<lambda>d.
                add_t acc (scale (1 / real_of_int (ev_n_avg v)) d))) of
             Inl e \<Rightarrow> Inl e
           | Inr acc' \<Rightarrow>
               average_v E v t ks acc'
                 (st\<lparr>e_generators := gens,
                     e_momentum_buffer := kept_buffer (e_momentum_buffer st) mb,
                     e_calls := e_calls st @ cs\<rparr>))))))"

definition edit_body ::
  "('c, 'h, 'mb, 'ss, 'g) env \<Rightarrow> 'c edit_vars \<Rightarrow> nat \<Rightarrow> real \<Rightarrow>
   ('mb, 'ss, 'g) edit_state \<Rightarrow> py_error + ('mb, 'ss, 'g) edit_state" where
  \<comment> \<open>one iteration of the loop of line 415\<close>
  "edit_body E v i t st =
     (if int i < ev_n_min v then Inr st
      else
        (let t_i = t / 1000; t_im1 = next_fraction (ev_timesteps v) i in
         if int i < ev_n_max v then
           bind_err (average_v E v t [0..<nat (ev_n_avg v)]
                       (zeros (batch (ev_x_src v)) (chan (ev_x_src v)) (feat (ev_x_src v))
                          (frames (ev_x_src v))) st) (\<lambda>(v_delta_avg, st1).
           bind_err (add_t (e_zt_edit st1) (scale (t_im1 - t_i) v_delta_avg)) (\<lambda>z.
           Inr (st1\<lparr>e_zt_edit := z\<rparr>)))
         else
           bind_err
             (if int i = ev_n_max v then
                (case randn_like E (ev_x_src v) (e_generators st) of
                   (fwd_noise, gens) \<Rightarrow>
                     (case init_step_index E (e_scheduler st) t of
                        (step_index, sched) \<Rightarrow>
                          bind_err (py_index (scheduler_sigmas E sched) (int step_index)) (\<lambda>sigma.
                          bind_err (add_t (scale sigma fwd_noise) (scale (1 - sigma) (ev_x_src v)))
                            (\<lambda>xt_src.
                          bind_err (add_t (e_zt_edit st) xt_src) (\<lambda>s.
                          bind_err (sub_t s (ev_x_src v)) (\<lambda>xt.
                          Inr (st\<lparr>e_xt_tar := Some xt, e_generators := gens,
                                   e_scheduler := sched\<rparr>)))))))
              else Inr st) (\<lambda>st1.
           bind_err (calc_v E None (e_xt_tar st1) t (ev_cond v) (ev_do_cfg v)
                       (ev_guidance_scale v) (ev_guidance_scale v) ''apg'' (ev_attention_mask v)
                       None (Some (e_momentum_buffer_tar st1)) False)
             (\<lambda>((vt_src, vt_tar), mb, mb_tar, cs).
           bind_err (bound (e_xt_tar st1)) (\<lambda>xt.
           bind_err (add_t xt (scale (t_im1 - t_i) vt_tar)) (\<lambda>prev_sample.
           Inr (st1\<lparr>e_xt_tar := Some prev_sample,
                    e_momentum_buffer_tar := kept_buffer (e_momentum_buffer_tar st1) mb_tar,
                    e_calls := e_calls st1 @ cs\<rparr>)))))))"

fun edit_loop ::
  "('c, 'h, 'mb, 'ss, 'g) env \<Rightarrow> 'c edit_vars \<Rightarrow> nat \<Rightarrow> real list \<Rightarrow>
   ('mb, 'ss, 'g) edit_state \<Rightarrow> py_error + ('mb, 'ss, 'g) edit_state" where
  "edit_loop E v i [] st = Inr st"
| "edit_loop E v i (t # ts) st =
     (case edit_body E v i t st of
        Inl e \<Rightarrow> Inl e
      | Inr st' \<Rightarrow> edit_loop E v (Suc i) ts st')"

definition with_null :: "('c, 'h, 'mb, 'ss, 'g) env \<Rightarrow> 'c \<Rightarrow> 'c" where
  \<comment> \<open>\<^verbatim>\<open>torch.cat([x, torch.zeros_like(x)], 0)\<close>\<close>
  "with_null E x = cat0 E x (zeros_like E x)"

definition guidance_cond :: "('c, 'h, 'mb, 'ss, 'g) env \<Rightarrow> 'c edit_cond \<Rightarrow> 'c edit_cond" where
  \<comment> \<open>lines 366-403: the conditioning doubled for classifier-free guidance\<close>
  "guidance_cond E c =
     \<lparr>src_text_hidden_states = with_null E (src_text_hidden_states c),
      src_text_attention_mask = cat0 E (src_text_attention_mask c) (src_text_attention_mask c),
      src_speaker_embds = with_null E (src_speaker_embds c),
      src_lyric_token_ids = with_null E (src_lyric_token_ids c),
      src_lyric_mask = with_null E (src_lyric_mask c),
      target_encoder_text_hidden_states = with_null E (target_encoder_text_hidden_states c),
      target_text_attention_mask =
        cat0 E (target_text_attention_mask c) (target_text_attention_mask c),
      target_speaker_embeds = with_null E (target_speaker_embeds c),
      target_lyric_token_ids = with_null E (target_lyric_token_ids c),
      target_lyric_mask = with_null E (target_lyric_mask c)\<rparr>"

definition flowedit_diffusion_process ::
  "('c, 'h, 'mb, 'ss, 'g) env \<Rightarrow> ('c, 'g) edit_args \<Rightarrow>
   py_error + (tensor \<times> 'mb edit_call list)" where
  \<comment> \<open>lines 320-512; the result is the returned latent, with the calls made\<close>
  "flowedit_diffusion_process E a =
     (let do_cfg = do_classifier_free_guidance (edit_guidance_scale a);
          n_rows = shape0 E (src_text_hidden_states (edit_cond a))
      in case edit_src_latents a of
           None \<Rightarrow> Inl AttributeError
         | Some x_src \<Rightarrow>
             (case retrieve_timesteps E (FlowMatchEulerDiscreteScheduler E) (edit_infer_steps a) of
                ((ts, t_steps), sched) \<Rightarrow>
                  (let v = \<lparr>ev_cond = (if do_cfg then guidance_cond E (edit_cond a)
                                         else edit_cond a),
                            ev_do_cfg = do_cfg,
                            ev_guidance_scale = edit_guidance_scale a,
                            ev_attention_mask =
                              (if do_cfg then (n_rows + n_rows, frames x_src)
                               else (n_rows, frames x_src)),
                            ev_x_src = x_src, ev_timesteps = ts,
                            ev_n_min = py_int (real_of_int (edit_infer_steps a) * edit_n_min a),
                            ev_n_max = py_int (real_of_int (edit_infer_steps a) * edit_n_max a),
                            ev_n_avg = edit_n_avg a\<rparr>;
                       st0 = \<lparr>e_zt_edit = x_src, e_xt_tar = None,
                              e_generators = edit_random_generators a,
                              e_momentum_buffer = MomentumBuffer E,
                              e_momentum_buffer_tar = MomentumBuffer E,
                              e_scheduler = sched, e_calls = []\<rparr>
                   in bind_err (edit_loop E v 0 ts st0) (\<lambda>st.
                      Inr ((case e_xt_tar st of None \<Rightarrow> e_zt_edit st | Some xt \<Rightarrow> xt),
                           e_calls st)))))"

definition pipeline_seeds ::
  "(string \<Rightarrow> int option) \<Rightarrow> (string \<Rightarrow> bool) \<Rightarrow> ('r \<Rightarrow> int \<times> 'r) \<Rightarrow> (int \<Rightarrow> 'g) \<Rightarrow>
   nat \<Rightarrow> seeds_arg \<Rightarrow> seeds_arg \<Rightarrow> 'r \<Rightarrow> py_error + ('g list \<times> 'g list)" where
  \<comment> \<open>lines 1137-1138 of \<^verbatim>\<open>__call__\<close>: the generators handed to the two samplers\<close>
  "pipeline_seeds int_of_str isdigit randint manual_seed batch_size manual_seeds retake_seeds r =
     bind_err (set_seeds int_of_str isdigit randint manual_seed batch_size manual_seeds r)
       (\<lambda>((random_generators, actual_seeds), r1).
     bind_err (set_seeds int_of_str isdigit randint manual_seed batch_size retake_seeds r1)
       (\<lambda>((retake_random_generators, actual_retake_seeds), r2).
     Inr (random_generators, retake_random_generators)))"

section \<open>A stub environment and sample arguments for concrete runs\<close>

text \<open>
  Concrete runs need concrete collaborators. The stub schedule is evenly spaced from 1000
  downwards, the stub predictor returns the latent it is given, the stub guidance functions
  return the conditional prediction, and a momentum buffer counts its updates.
\<close>

definition stub_timesteps :: "int \<Rightarrow> real list" where
  "stub_timesteps n = map (\<lambda>j. 1000 - 1000 * real j / real_of_int n) [0..<nat n]"

definition stub_env :: "(nat, unit, nat, real list, int) env" where
  "stub_env =
     \<lparr>shape0 = (\<lambda>c. c),
      zeros_like = (\<lambda>c. c),
      cat0 = (\<lambda>x y. x + y),
      FlowMatchEulerDiscreteScheduler = [],
      FlowMatchHeunDiscreteScheduler = [],
      retrieve_timesteps = (\<lambda>s n. ((stub_timesteps n, n), stub_timesteps n)),
      retrieve_timesteps_sigmas =
        (\<lambda>s n sig. ((map (\<lambda>x. x * 1000) sig, n), map (\<lambda>x. x * 1000) sig)),
      scheduler_timesteps = (\<lambda>s. s),
      scheduler_sigmas = (\<lambda>s. map (\<lambda>t. t / 1000) s @ [0]),
      scheduler_step = (\<lambda>s np t x omega. (x, s)),
      init_step_index = (\<lambda>s t. (0, s)),
      randn_values =
        (\<lambda>nb nc nf nk gens.
           ((\<lambda>b c f k. (case gens of [] \<Rightarrow> 0 | g # rest \<Rightarrow> real_of_int g) + real k), gens)),
      encode = (\<lambda>x m s l lm. ((), ())),
      encode_with_temperature = (\<lambda>x m s l lm. ()),
      decode = (\<lambda>x am h m n t. x),
      decode_with_temperature = (\<lambda>x am h m n t. x),
      transformer = (\<lambda>x am h m s l lm t. x),
      MomentumBuffer = 0,
      apg_forward = (\<lambda>c u s mb. (c, map_option Suc mb)),
      cfg_forward = (\<lambda>c u s. c),
      cfg_zero_star = (\<lambda>c u s i z init. c),
      cfg_double_condition_forward = (\<lambda>c u ot gt gl. c)\<rparr>"

definition sample_args :: "(nat, int) t2m_args" where
  \<comment> \<open>the defaults of the signature (lines 546-570), for one row, one second and two steps\<close>
  "sample_args =
     \<lparr>duration = 1,
      encoder_text_hidden_states = 1,
      text_attention_mask = 1,
      speaker_embds = 1,
      lyric_token_ids = 1,
      lyric_mask = 1,
      random_generators = [1],
      infer_steps = 2,
      guidance_scale = 15,
      omega_scale = 10,
      scheduler_type = ''euler'',
      cfg_type = ''apg'',
      zero_steps = 1,
      use_zero_init = True,
      guidance_interval = 0.5,
      guidance_interval_decay = 1,
      min_guidance_scale = 3,
      oss_steps = [],
      encoder_text_hidden_states_null = None,
      use_erg_lyric = False,
      use_erg_diffusion = False,
      retake_random_generators = [2],
      retake_variance = 0.5,
      add_retake_noise = False,
      guidance_scale_text = Some 0,
      guidance_scale_lyric = Some 0,
      repaint_start = 0,
      repaint_end = 0,
      src_latents = None,
      audio2audio_enable = False,
      ref_audio_strength = 0.5,
      ref_latents = None\<rparr>"

definition sample_latent :: tensor where
  "sample_latent = Tensor 1 8 16 10 (\<lambda>b c f k. real k)"

definition sample_noise :: tensor where
  "sample_noise = Tensor 1 8 16 10 (\<lambda>b c f k. 100 + real k)"

definition sample_retake_vars :: retake_vars where
  \<comment> \<open>the locals of a run without retake noise\<close>
  "sample_retake_vars =
     \<lparr>frame_length = 10, target_latents = sample_noise, is_repaint = False,
      is_extend = False, n_min = None, x0 = None, z0 = None, zt_edit = None,
      repaint_mask = None, to_right_pad_gt_latents = None, to_left_pad_gt_latents = None\<rparr>"


definition sample_loop_vars :: "unit loop_vars" where
  "sample_loop_vars =
     \<lparr>timesteps = [1000, 500], bsz = 1, init_timestep = 1000, start_idx = 0, end_idx = 2,
      encoder_hidden_states = (), encoder_hidden_mask = (), encoder_hidden_states_null = (),
      encoder_hidden_states_no_lyric = Some (), rv = sample_retake_vars\<rparr>"

definition sample_loop_state :: "(nat, real list) loop_state" where
  "sample_loop_state =
     \<lparr>latents = sample_noise, noise_pred = None, momentum_buffer = 0,
      scheduler = [1000, 500], calls = []\<rparr>"

definition long_latent :: tensor where
  \<comment> \<open>a source latent of 2583 frames, the longest the sampler infers in one pass\<close>
  "long_latent = Tensor 1 8 16 2583 (\<lambda>b c f k. real k)"

definition extend_args :: "(nat, int) t2m_args" where
  \<comment> \<open>the extend task on \<open>long_latent\<close>: nothing added on the left, the end moved to second
      241; the extend node passes \<^verbatim>\<open>retake_variance=1.0\<close>\<close>
  "extend_args =
     sample_args\<lparr>guidance_scale := 1, retake_variance := 1, add_retake_noise := True,
                 repaint_start := 0, repaint_end := 241, src_latents := Some long_latent\<rparr>"

definition sample_edit_args :: "(nat, int) edit_args" where
  \<comment> \<open>an edit of \<open>sample_latent\<close> with the defaults of the signature (lines 333-338) but
      two steps\<close>
  "sample_edit_args =
     \<lparr>edit_cond =
        \<lparr>src_text_hidden_states = 1, src_text_attention_mask = 1, src_speaker_embds = 1,
         src_lyric_token_ids = 1, src_lyric_mask = 1, target_encoder_text_hidden_states = 1,
         target_text_attention_mask = 1, target_speaker_embeds = 1,
         target_lyric_token_ids = 1, target_lyric_mask = 1\<rparr>,
      edit_src_latents = Some sample_latent,
      edit_random_generators = [2],
      edit_infer_steps = 2,
      edit_guidance_scale = 15,
      edit_n_min = 0,
      edit_n_max = 1,
      edit_n_avg = 1\<rparr>"

section \<open>Properties\<close>

subsection \<open>Evaluation rules\<close>

lemma bind_err_simps [simp]:
  "bind_err (Inr x) k = k x"
  "bind_err (Inl e) k = Inl e"
  by (simp_all add: bind_err_def)

lemma bound_simps [simp]:
  "bound (Some x) = Inr x"
  "bound None = Inl UnboundLocalError"
  by (simp_all add: bound_def)

lemma stub_env_simps:
  "shape0 stub_env = (\<lambda>c. c)"
  "zeros_like stub_env = (\<lambda>c. c)"
  "cat0 stub_env = (\<lambda>x y. x + y)"
  "FlowMatchEulerDiscreteScheduler stub_env = []"
  "FlowMatchHeunDiscreteScheduler stub_env = []"
  "retrieve_timesteps stub_env = (\<lambda>s n. ((stub_timesteps n, n), stub_timesteps n))"
  "retrieve_timesteps_sigmas stub_env =
     (\<lambda>s n sig. ((map (\<lambda>x. x * 1000) sig, n), map (\<lambda>x. x * 1000) sig))"
  "scheduler_timesteps stub_env = (\<lambda>s. s)"
  "scheduler_sigmas stub_env = (\<lambda>s. map (\<lambda>t. t / 1000) s @ [0])"
  "scheduler_step stub_env = (\<lambda>s np t x omega. (x, s))"
  "init_step_index stub_env = (\<lambda>s t. (0, s))"
  "randn_values stub_env =
     (\<lambda>nb nc nf nk gens.
        ((\<lambda>b c f k. (case gens of [] \<Rightarrow> 0 | g # rest \<Rightarrow> real_of_int g) + real k), gens))"
  "encode stub_env = (\<lambda>x m s l lm. ((), ()))"
  "encode_with_temperature stub_env = (\<lambda>x m s l lm. ())"
  "decode stub_env = (\<lambda>x am h m n t. x)"
  "decode_with_temperature stub_env = (\<lambda>x am h m n t. x)"
  "transformer stub_env = (\<lambda>x am h m s l lm t. x)"
  "MomentumBuffer stub_env = 0"
  "apg_forward stub_env = (\<lambda>c u s mb. (c, map_option Suc mb))"
  "cfg_forward stub_env = (\<lambda>c u s. c)"
  "cfg_zero_star stub_env = (\<lambda>c u s i z init. c)"
  "cfg_double_condition_forward stub_env = (\<lambda>c u ot gt gl. c)"
  by (simp_all add: stub_env_def)

lemma sample_args_simps:
  "duration sample_args = 1"
  "encoder_text_hidden_states sample_args = 1"
  "text_attention_mask sample_args = 1"
  "speaker_embds sample_args = 1"
  "lyric_token_ids sample_args = 1"
  "lyric_mask sample_args = 1"
  "random_generators sample_args = [1]"
  "infer_steps sample_args = 2"
  "guidance_scale sample_args = 15"
  "omega_scale sample_args = 10"
  "scheduler_type sample_args = ''euler''"
  "cfg_type sample_args = ''apg''"
  "zero_steps sample_args = 1"
  "use_zero_init sample_args = True"
  "guidance_interval sample_args = 0.5"
  "guidance_interval_decay sample_args = 1"
  "min_guidance_scale sample_args = 3"
  "oss_steps sample_args = []"
  "encoder_text_hidden_states_null sample_args = None"
  "use_erg_lyric sample_args = False"
  "use_erg_diffusion sample_args = False"
  "retake_random_generators sample_args = [2]"
  "retake_variance sample_args = 0.5"
  "add_retake_noise sample_args = False"
  "guidance_scale_text sample_args = Some 0"
  "guidance_scale_lyric sample_args = Some 0"
  "repaint_start sample_args = 0"
  "repaint_end sample_args = 0"
  "src_latents sample_args = None"
  "audio2audio_enable sample_args = False"
  "ref_audio_strength sample_args = 0.5"
  "ref_latents sample_args = None"
  by (simp_all add: sample_args_def)

lemma sample_loop_vars_simps:
  "timesteps sample_loop_vars = [1000, 500]"
  "bsz sample_loop_vars = 1"
  "init_timestep sample_loop_vars = 1000"
  "start_idx sample_loop_vars = 0"
  "end_idx sample_loop_vars = 2"
  "encoder_hidden_states_no_lyric sample_loop_vars = Some ()"
  "rv sample_loop_vars = sample_retake_vars"
  by (simp_all add: sample_loop_vars_def)

lemma sample_retake_vars_simps:
  "frame_length sample_retake_vars = 10"
  "is_repaint sample_retake_vars = False"
  "is_extend sample_retake_vars = False"
  by (simp_all add: sample_retake_vars_def)

lemma sample_loop_state_simps:
  "latents sample_loop_state = sample_noise"
  "noise_pred sample_loop_state = None"
  "momentum_buffer sample_loop_state = 0"
  "scheduler sample_loop_state = [1000, 500]"
  "calls sample_loop_state = []"
  by (simp_all add: sample_loop_state_def)

lemma stub_timesteps_2: "stub_timesteps 2 = [1000, 500]"
  by (simp add: stub_timesteps_def upt_conv_Cons)

lemma frames_of_seconds_1: "frames_of_seconds 1 = 10"
  by (simp add: frames_of_seconds_def py_int_def)

lemma window_2: "guidance_start_idx 2 (1 / 2) = 0" "guidance_end_idx 2 (1 / 2) = 1"
  by (simp_all add: guidance_start_idx_def guidance_end_idx_def py_int_def)

subsection \<open>The nearest-index lookup\<close>






subsection \<open>The guidance window and the decay divisor\<close>

lemma loop_body_zero_division:
  assumes "t \<le> init_timestep lv" "\<not> is_repaint (rv lv)"
    and "start_idx lv \<le> int i" "int i < end_idx lv" "end_idx lv - start_idx lv = 1"
    and "do_classifier_free_guidance (guidance_scale a)" "guidance_interval_decay a > 0"
  shows "loop_body E a lv i t st = Inl ZeroDivisionError"
  using assms
  by (simp add: loop_body_def guided_noise_pred_def current_guidance_scale_def)

text \<open>
  Claim C10. The claim says the guidance window holds at least two indices whenever a step
  runs inside it, so that the divisor \<open>end_idx - start_idx - 1\<close> of the linear decay is never
  zero. With two inference steps and the default interval 0.5 the window is \<open>[0, 1)\<close>: the
  only guided step divides by zero, and the run ends in ZeroDivisionError.
\<close>

theorem single_step_window_raises:
  "text2music_diffusion_process stub_env sample_args = Inl ZeroDivisionError"
proof -
  have body: "loop_body stub_env sample_args lv 0 1000 st = Inl ZeroDivisionError"
    if "init_timestep lv = 1000" "\<not> is_repaint (rv lv)" "start_idx lv = 0" "end_idx lv = 1"
    for lv :: "unit loop_vars" and st :: "(nat, real list) loop_state"
    using that
    by (intro loop_body_zero_division)
       (simp_all add: sample_args_simps do_classifier_free_guidance_def)
  show ?thesis
    by (simp add: text2music_diffusion_process_def Let_def new_scheduler_def make_timesteps_def
        initial_frame_length_def randn_tensor_def retake_setup_def prenoise_def
        sample_args_simps stub_env_simps stub_timesteps_2 frames_of_seconds_1 window_2 body)
qed

subsection \<open>Guidance disabled\<close>






subsection \<open>Double-condition guidance\<close>

lemma bind_err_Inr_iff:
  "bind_err m k = Inr y \<longleftrightarrow> (\<exists>x. m = Inr x \<and> k x = Inr y)"
  by (cases m) auto

lemma double_condition_iff:
  "do_double_condition_guidance gst gsl \<longleftrightarrow>
     (\<exists>u v. gst = Some u \<and> gsl = Some v \<and> u > 1 \<and> v > 1)"
  by (auto simp: do_double_condition_guidance_def split: option.splits)

lemma no_lyric_condition_None:
  "no_lyric_condition E a = None \<longleftrightarrow>
     \<not> do_double_condition_guidance (guidance_scale_text a) (guidance_scale_lyric a)"
  by (simp add: no_lyric_condition_def)

lemma guided_noise_pred_fusion:
  assumes lv: "encoder_hidden_states_no_lyric lv = no_lyric_condition E a"
    and ok: "guided_noise_pred E a lv i t x st = Inr (np, mb, cs)"
  shows "(CfgDoubleConditionForward \<in> set cs \<longleftrightarrow>
            do_double_condition_guidance (guidance_scale_text a) (guidance_scale_lyric a)) \<and>
         (CfgDoubleConditionForward \<in> set cs \<longrightarrow>
            filter is_fusion_call cs = [CfgDoubleConditionForward])"
proof (cases "do_double_condition_guidance (guidance_scale_text a) (guidance_scale_lyric a)")
  case True
  then obtain u v where uv: "guidance_scale_text a = Some u" "guidance_scale_lyric a = Some v"
    by (auto simp: double_condition_iff)
  from True obtain h where h: "no_lyric_condition E a = Some h"
    using no_lyric_condition_None[of E a] by (cases "no_lyric_condition E a") auto
  from ok show ?thesis
    using True uv h lv
    by (auto simp: guided_noise_pred_def Let_def is_fusion_call_def bind_err_Inr_iff
        split: if_splits)
next
  case False
  from ok show ?thesis
    using False lv
    by (auto simp: guided_noise_pred_def Let_def is_fusion_call_def bind_err_Inr_iff
        no_lyric_condition_None split: if_splits prod.splits)
qed


text \<open>
  Claim C6. At a guided step of the loop (inside the guidance interval, with classifier-free
  guidance on, not skipped) that completes, \<^verbatim>\<open>cfg_double_condition_forward\<close> is called if
  and only if \<^verbatim>\<open>guidance_scale_text\<close> and \<^verbatim>\<open>guidance_scale_lyric\<close> are both given and both
  greater than 1; and when it is called it is the only guidance fusion called in that step.
\<close>

theorem double_condition_supersedes:
  assumes lv: "encoder_hidden_states_no_lyric lv = no_lyric_condition E a"
    and guided: "start_idx lv \<le> int i" "int i < end_idx lv"
                "do_classifier_free_guidance (guidance_scale a)"
    and run: "t \<le> init_timestep lv"
             "is_repaint (rv lv) \<longrightarrow> (\<exists>nm. n_min (rv lv) = Some nm \<and> nm \<le> int i)"
    and ok: "loop_body E a lv i t st = Inr st'"
  shows "\<exists>cs. calls st' = calls st @ cs \<and>
           (CfgDoubleConditionForward \<in> set cs \<longleftrightarrow>
              (\<exists>u v. guidance_scale_text a = Some u \<and> guidance_scale_lyric a = Some v \<and>
                     u > 1 \<and> v > 1)) \<and>
           (CfgDoubleConditionForward \<in> set cs \<longrightarrow>
              filter is_fusion_call cs = [CfgDoubleConditionForward])"
proof -
  from ok guided run obtain res x where
    g0: "guided_noise_pred E a lv i t x st = Inr res"
    and c0: "calls st' = calls st @ snd (snd res) \<or>
             calls st' = calls st @ snd (snd res) @ [SchedulerStep]"
    by (auto simp: loop_body_def bind_err_Inr_iff case_prod_beta split: if_splits)
  obtain np mb cs where res: "res = (np, mb, cs)" by (cases res) auto
  from g0 res have g: "guided_noise_pred E a lv i t x st = Inr (np, mb, cs)" by simp
  note f = guided_noise_pred_fusion[OF lv g]
  from c0 res consider "calls st' = calls st @ cs" | "calls st' = calls st @ cs @ [SchedulerStep]"
    by auto
  then show ?thesis
  proof cases
    case 1
    with f show ?thesis
      unfolding double_condition_iff by (intro exI[of _ cs]) simp
  next
    case 2
    from f have "(CfgDoubleConditionForward \<in> set (cs @ [SchedulerStep]) \<longleftrightarrow>
            do_double_condition_guidance (guidance_scale_text a) (guidance_scale_lyric a)) \<and>
         (CfgDoubleConditionForward \<in> set (cs @ [SchedulerStep]) \<longrightarrow>
            filter is_fusion_call (cs @ [SchedulerStep]) = [CfgDoubleConditionForward])"
      by (simp add: is_fusion_call_def)
    with 2 show ?thesis
      unfolding double_condition_iff by (intro exI[of _ "cs @ [SchedulerStep]"]) simp
  qed
qed

theorem double_condition_supersedes_witness:
  "\<exists>st'. loop_body stub_env
            (sample_args\<lparr>guidance_interval_decay := 0, guidance_scale_text := Some 2,
                         guidance_scale_lyric := Some 3\<rparr>)
            sample_loop_vars 0 1000 sample_loop_state = Inr st' \<and>
         CfgDoubleConditionForward \<in> set (calls st') \<and>
         filter is_fusion_call (calls st') = [CfgDoubleConditionForward]"
proof -
  let ?a = "sample_args\<lparr>guidance_interval_decay := 0, guidance_scale_text := Some 2,
                         guidance_scale_lyric := Some 3\<rparr>"
  have dd: "do_double_condition_guidance (guidance_scale_text ?a) (guidance_scale_lyric ?a)"
    by (simp add: do_double_condition_guidance_def)
  have lv: "encoder_hidden_states_no_lyric sample_loop_vars = no_lyric_condition stub_env ?a"
    using dd by (simp add: no_lyric_condition_def sample_loop_vars_simps sample_args_simps
        stub_env_simps)
  have guided: "start_idx sample_loop_vars \<le> int 0" "int 0 < end_idx sample_loop_vars"
    "do_classifier_free_guidance (guidance_scale ?a)"
    by (simp_all add: sample_loop_vars_simps sample_args_simps do_classifier_free_guidance_def)
  have run: "1000 \<le> init_timestep sample_loop_vars"
    "is_repaint (rv sample_loop_vars) \<longrightarrow>
       (\<exists>nm. n_min (rv sample_loop_vars) = Some nm \<and> nm \<le> int 0)"
    by (simp_all add: sample_loop_vars_simps sample_retake_vars_simps)
  obtain st' where ok: "loop_body stub_env ?a sample_loop_vars 0 1000 sample_loop_state = Inr st'"
    using dd
    by (simp add: loop_body_def guided_noise_pred_def current_guidance_scale_def Let_def
        sample_loop_vars_simps sample_retake_vars_simps sample_loop_state_simps
        sample_args_simps stub_env_simps do_classifier_free_guidance_def)
  from double_condition_supersedes[OF lv guided run ok]
  obtain cs where cs: "calls st' = calls sample_loop_state @ cs"
    "CfgDoubleConditionForward \<in> set cs \<longleftrightarrow>
       (\<exists>u v. guidance_scale_text ?a = Some u \<and> guidance_scale_lyric ?a = Some v \<and>
              u > 1 \<and> v > 1)"
    "CfgDoubleConditionForward \<in> set cs \<longrightarrow>
       filter is_fusion_call cs = [CfgDoubleConditionForward]"
    by blast
  from cs(2) have "CfgDoubleConditionForward \<in> set cs" by simp
  with cs(1,3) ok show ?thesis by (simp add: sample_loop_state_simps)
qed

subsection \<open>The quarter-sine blend of a pure retake\<close>

lemma bix_same [simp]: "bix m m i = i"
  by (simp add: bix_def)

lemma bdim_same [simp]: "bdim m m = Some m"
  by (simp add: bdim_def)




lemma frames_of_seconds_0: "frames_of_seconds 0 = 0"
  by (simp add: frames_of_seconds_def py_int_def)



subsection \<open>The repaint splice\<close>

lemma zeros_sel [simp]:
  "batch (zeros nb nc nf nk) = nb" "chan (zeros nb nc nf nk) = nc"
  "feat (zeros nb nc nf nk) = nf" "frames (zeros nb nc nf nk) = nk"
  "elem (zeros nb nc nf nk) b c f k = 0"
  by (simp_all add: zeros_def)

lemma scale_sel [simp]:
  "batch (scale s x) = batch x" "chan (scale s x) = chan x"
  "feat (scale s x) = feat x" "frames (scale s x) = frames x"
  "elem (scale s x) b c f k = s * elem x b c f k"
  by (simp_all add: scale_def)

lemma set_frames_sel [simp]:
  "batch (set_frames x s e v) = batch x" "chan (set_frames x s e v) = chan x"
  "feat (set_frames x s e v) = feat x" "frames (set_frames x s e v) = frames x"
  by (simp_all add: set_frames_def Let_def)


lemma slice_frames_sel [simp]:
  "batch (slice_frames x s e) = batch x" "chan (slice_frames x s e) = chan x"
  "feat (slice_frames x s e) = feat x"
  "frames (slice_frames x s e) =
     (case e of None \<Rightarrow> frames x | Some j \<Rightarrow> slice_bound (frames x) j)
     - (case s of None \<Rightarrow> 0 | Some i \<Rightarrow> slice_bound (frames x) i)"
  by (simp_all add: slice_frames_def Let_def)

lemma blend_same_shape:
  assumes "batch x = batch z" "chan x = chan z" "feat x = feat z" "frames x = frames z"
  shows "add_t (scale p x) (scale q z) =
           Inr (Tensor (batch x) (chan x) (feat x) (frames x)
                  (\<lambda>b c f k. p * elem x b c f k + q * elem z b c f k))"
  using assms by (simp add: add_t_def ew2_def scale_def bat_def)










lemma sample_tensor_simps:
  "batch sample_latent = 1" "chan sample_latent = 8" "feat sample_latent = 16"
  "frames sample_latent = 10" "elem sample_latent = (\<lambda>b c f k. real k)"
  "batch sample_noise = 1" "chan sample_noise = 8" "feat sample_noise = 16"
  "frames sample_noise = 10" "elem sample_noise = (\<lambda>b c f k. 100 + real k)"
  by (simp_all add: sample_latent_def sample_noise_def)


subsection \<open>Audio2audio pre-noising and the skipped iterations\<close>

















subsection \<open>Extend reassembly\<close>

lemma frames_of_seconds_241: "frames_of_seconds 241 = 2594"
  by (simp add: frames_of_seconds_def py_int_def)

lemma max_infer_fame_length_value: "max_infer_fame_length = 2583"
  by (simp add: max_infer_fame_length_def py_int_def)

lemma extend_args_simps:
  "guidance_scale extend_args = 1"
  "retake_variance extend_args = 1"
  "add_retake_noise extend_args = True"
  "repaint_start extend_args = 0"
  "repaint_end extend_args = 241"
  "src_latents extend_args = Some long_latent"
  "ref_latents extend_args = None"
  "audio2audio_enable extend_args = False"
  "scheduler_type extend_args = ''euler''"
  "oss_steps extend_args = []"
  "infer_steps extend_args = 2"
  "random_generators extend_args = [1]"
  "retake_random_generators extend_args = [2]"
  "encoder_text_hidden_states extend_args = 1"
  "omega_scale extend_args = 10"
  by (simp_all add: extend_args_def sample_args_simps)

lemma reassembly_without_right_slice:
  assumes "is_extend r" "to_right_pad_gt_latents r = None" "to_left_pad_gt_latents r = Some l"
  shows "extend_reassembly r target = Inl TypeError"
  using assms by (simp add: extend_reassembly_def torch_cat_def)

lemma extend_right_only:
  assumes "extend_setup n (Some gt) s e target retake r0 = Inr r"
    and "0 \<le> s" "int (frames gt) < e" "max_infer_fame_length < e"
  shows "to_right_pad_gt_latents r = None \<and> to_left_pad_gt_latents r \<noteq> None"
  using assms
  by (auto simp: extend_setup_def extend_left_def extend_right_def Let_def bind_err_Inr_iff
      pad_frames_def split: if_splits)


lemma long_latent_simps:
  "batch long_latent = 1" "chan long_latent = 8" "feat long_latent = 16"
  "frames long_latent = 2583" "elem long_latent = (\<lambda>b c f k. real k)"
  by (simp_all add: long_latent_def)

lemma retake_setup_extend_args:
  assumes "retake_setup E extend_args n steps 2583 target = Inr r"
  shows "is_extend r \<and> to_right_pad_gt_latents r = None \<and> to_left_pad_gt_latents r \<noteq> None"
proof -
  from assms obtain retake r0 where
    e: "extend_setup n (Some long_latent) 0 2594 target retake r0 = Inr r"
    and r0: "is_extend r0"
    by (auto simp: retake_setup_def Let_def bind_err_Inr_iff extend_args_simps
        frames_of_seconds_0 frames_of_seconds_241 split: if_splits prod.splits)
  from e have "is_extend r = is_extend r0"
    by (auto simp: extend_setup_def Let_def bind_err_Inr_iff)
  moreover from extend_right_only[OF e] have
    "to_right_pad_gt_latents r = None \<and> to_left_pad_gt_latents r \<noteq> None"
    by (simp add: long_latent_simps max_infer_fame_length_value)
  ultimately show ?thesis using r0 by simp
qed

lemma right_overflow_extend_never_returns:
  "text2music_diffusion_process E extend_args \<noteq> Inr res"
proof
  assume "text2music_diffusion_process E extend_args = Inr res"
  then obtain n steps target r x out where
    r: "retake_setup E extend_args n steps 2583 target = Inr r"
    and o: "extend_reassembly r x = Inr out"
    by (auto simp: text2music_diffusion_process_def Let_def bind_err_Inr_iff split_def
        initial_frame_length_def extend_args_simps long_latent_simps)
  from retake_setup_extend_args[OF r] obtain l where
    "is_extend r" "to_right_pad_gt_latents r = None" "to_left_pad_gt_latents r = Some l"
    by auto
  from reassembly_without_right_slice[OF this] o show False by simp
qed


lemma cat2_sel:
  "cat2 FrameAxis x y = Inr z \<Longrightarrow>
     batch z = batch x \<and> chan z = chan x \<and> feat z = feat x \<and> frames z = frames x + frames y"
  by (auto simp: cat2_def split: if_splits)

lemma stub_retake_setup:
  "\<exists>r m z x. retake_setup stub_env extend_args (Suc 0) 2 2583
            (Tensor (Suc 0) 8 16 2583 p) = Inr r \<and>
     is_repaint r \<and> n_min r = Some 0 \<and> frame_length r = 2583 \<and>
     is_extend r \<and> to_right_pad_gt_latents r = None \<and> to_left_pad_gt_latents r \<noteq> None \<and>
     x0 r = Some x \<and> zt_edit r = Some x \<and>
     batch x = 1 \<and> chan x = 8 \<and> feat x = 16 \<and> frames x = 2583 \<and>
     z0 r = Some z \<and> target_latents r = z \<and>
     batch z = 1 \<and> chan z = 8 \<and> feat z = 16 \<and> frames z = 2583 \<and>
     repaint_mask r = Some m \<and>
     batch m = 1 \<and> chan m = 8 \<and> feat m = 16 \<and> frames m = 2583"
  by (simp add: retake_setup_def extend_setup_def extend_left_def extend_right_def
      extend_mask_def extend_target_def zeros_latent_def torch_cat_def cat2_def
      Let_def extend_args_simps long_latent_simps randn_tensor_def stub_env_simps
      frames_of_seconds_0 frames_of_seconds_241 max_infer_fame_length_value
      pad_frames_def slice_bound_def py_int_def)


lemma stub_loop_body_repaint:
  assumes r: "is_repaint (rv lv)" "n_min (rv lv) = Some 0" "x0 (rv lv) = Some x"
      "zt_edit (rv lv) = Some x" "z0 (rv lv) = Some z" "repaint_mask (rv lv) = Some m"
    and sh: "same_shape z x" "same_shape m x" "same_shape (latents st) x"
    and t: "t \<le> init_timestep lv" and gs: "guidance_scale a = 1"
  shows "\<exists>st'. loop_body stub_env a lv i t st = Inr st' \<and> same_shape (latents st') x"
  using assms
  by (simp add: loop_body_def unguided_noise_pred_def repaint_start_latents_def
      repaint_advance_def add_t_def sub_t_def ew2_def where_eq1_def Let_def same_shape_def
      do_classifier_free_guidance_def stub_env_simps)

lemma stub_run_loop_repaint:
  assumes r: "is_repaint (rv lv)" "n_min (rv lv) = Some 0" "x0 (rv lv) = Some x"
      "zt_edit (rv lv) = Some x" "z0 (rv lv) = Some z" "repaint_mask (rv lv) = Some m"
    and sh: "same_shape z x" "same_shape m x"
    and gs: "guidance_scale a = 1"
  shows "same_shape (latents st) x \<Longrightarrow> \<forall>t\<in>set ts. t \<le> init_timestep lv \<Longrightarrow>
         \<exists>st'. run_loop stub_env a lv i ts st = Inr st'"
proof (induction ts arbitrary: i st)
  case Nil
  then show ?case by simp
next
  case (Cons t ts)
  from Cons.prems have t: "t \<le> init_timestep lv" by simp
  from stub_loop_body_repaint[OF r sh Cons.prems(1) t gs, of i] obtain st1 where
    st1: "loop_body stub_env a lv i t st = Inr st1" "same_shape (latents st1) x" by blast
  from Cons.prems have "\<forall>u\<in>set ts. u \<le> init_timestep lv" by simp
  from Cons.IH[OF st1(2) this, of "Suc i"] st1(1) show ?case by simp
qed

text \<open>
  Claim C1. The claim says that the reassembly reattaches a cached slice on its side along
  the frame axis, so that the output has the full requested length and the same batch size.
  For a source of 2583 frames extended on the right to second 241 (frame 2594), the set-up
  trims 11 frames on the left and caches \<^verbatim>\<open>to_left_pad_gt_latents\<close>, while
  \<^verbatim>\<open>to_right_pad_gt_latents\<close> stays \<^verbatim>\<open>None\<close>. Lines 1059-1062 then concatenate
  \<^verbatim>\<open>to_right_pad_gt_latents\<close> (not the left slice) along \<^verbatim>\<open>dim=0\<close>: the run ends in
  TypeError and returns no latent. By \<open>right_overflow_extend_never_returns\<close> this holds for
  every environment.
\<close>

theorem extend_right_overflow_raises:
  "text2music_diffusion_process stub_env extend_args = Inl TypeError"
proof -
  let ?target = "Tensor (Suc 0) 8 16 2583 (\<lambda>b c f k. real_of_int 1 + real k)"
  from stub_retake_setup[of "\<lambda>b c f k. real_of_int 1 + real k"] obtain r m z x where
    rs: "retake_setup stub_env extend_args (Suc 0) 2 2583 ?target = Inr r"
    and r: "is_repaint r" "n_min r = Some 0" "x0 r = Some x" "zt_edit r = Some x"
           "z0 r = Some z" "repaint_mask r = Some m"
    and tl: "target_latents r = z"
    and ex: "is_extend r" "to_right_pad_gt_latents r = None" "to_left_pad_gt_latents r \<noteq> None"
    and sh: "same_shape z x" "same_shape m x"
    by (auto simp: same_shape_def)
  define lv :: "unit loop_vars" where "lv = \<lparr>timesteps = [1000, 500], bsz = Suc 0,
      init_timestep = 1000, start_idx = guidance_start_idx 2 (1 / 2),
      end_idx = guidance_end_idx 2 (1 / 2), encoder_hidden_states = (),
      encoder_hidden_mask = (), encoder_hidden_states_null = (),
      encoder_hidden_states_no_lyric = no_lyric_condition stub_env extend_args, rv = r\<rparr>"
  define st0 :: "(nat, real list) loop_state" where "st0 = \<lparr>latents = z, noise_pred = None,
      momentum_buffer = 0, scheduler = [1000, 500], calls = []\<rparr>"
  have lvr: "rv lv = r" "init_timestep lv = 1000" by (simp_all add: lv_def)
  have "\<exists>st'. run_loop stub_env extend_args lv 0 [1000, 500] st0 = Inr st'"
    by (rule stub_run_loop_repaint[where x = x and z = z and m = m])
       (use r sh in \<open>simp_all add: lvr st0_def extend_args_simps\<close>)
  then obtain st' where loop: "run_loop stub_env extend_args lv 0 [1000, 500] st0 = Inr st'"
    by blast
  from ex obtain l where "to_left_pad_gt_latents r = Some l" by auto
  from reassembly_without_right_slice[OF ex(1,2) this]
  have re: "extend_reassembly r (latents st') = Inl TypeError" .
  show ?thesis
    using rs loop re tl
    by (simp add: text2music_diffusion_process_def Let_def new_scheduler_def
        make_timesteps_def initial_frame_length_def randn_tensor_def prenoise_def
        extend_args_simps stub_env_simps stub_timesteps_2 long_latent_simps
        lv_def st0_def sample_args_simps extend_args_def del: run_loop.simps)
qed

subsection \<open>Momentum buffers of the flow-edit sampler\<close>

lemma sample_edit_args_simps:
  "edit_src_latents sample_edit_args = Some sample_latent"
  "edit_random_generators sample_edit_args = [2]"
  "edit_infer_steps sample_edit_args = 2"
  "edit_guidance_scale sample_edit_args = 15"
  "edit_n_min sample_edit_args = 0"
  "edit_n_max sample_edit_args = 1"
  "edit_n_avg sample_edit_args = 1"
  by (simp_all add: sample_edit_args_def)

lemma dual_phase_target_gets_no_buffer:
  assumes "calc_v E zs zt t c dc gs tgs ty am mb None rs = Inr (res, mb1, mbt, cs)"
  shows "ApgForwardWith TarTrajectory (Some b) \<notin> set cs"
  using assms
  by (auto simp: calc_v_def Let_def bind_err_Inr_iff split_def split: if_splits)

text \<open>
  Claim C2. The claim says that with guidance active each trajectory's own momentum buffer
  is the one passed to its \<^verbatim>\<open>apg_forward\<close> at every guided step. In the steps before
  \<^verbatim>\<open>n_max\<close> the call of \<^verbatim>\<open>calc_v\<close> (lines 442-461) passes \<^verbatim>\<open>momentum_buffer\<close> only, so the
  target trajectory's fusion receives \<^verbatim>\<open>None\<close>; only the steps from \<^verbatim>\<open>n_max\<close> on
  (lines 483-503) pass \<^verbatim>\<open>momentum_buffer_tar\<close>. The first run has \<^verbatim>\<open>n_max = 1.0\<close> (the
  default), the second \<^verbatim>\<open>n_max = 0.5\<close>; a buffer is shown by the number of updates it has
  had.
\<close>

theorem flowedit_target_buffer_not_passed:
  "map_sum id snd (flowedit_diffusion_process stub_env sample_edit_args) =
     Inr [Transformer SrcTrajectory, ApgForwardWith SrcTrajectory (Some 0),
          Transformer TarTrajectory, ApgForwardWith TarTrajectory None,
          Transformer SrcTrajectory, ApgForwardWith SrcTrajectory (Some 1),
          Transformer TarTrajectory, ApgForwardWith TarTrajectory None] \<and>
   map_sum id snd (flowedit_diffusion_process stub_env (sample_edit_args\<lparr>edit_n_max := 1 / 2\<rparr>)) =
     Inr [Transformer SrcTrajectory, ApgForwardWith SrcTrajectory (Some 0),
          Transformer TarTrajectory, ApgForwardWith TarTrajectory None,
          Transformer TarTrajectory, ApgForwardWith TarTrajectory (Some 0)]"
  by (simp add: flowedit_diffusion_process_def edit_body_def calc_v_def model_input_def
      chunk2_def torch_cat_def cat2_def randn_like_def kept_buffer_def next_fraction_def
      guidance_cond_def with_null_def py_index_def
      add_t_def sub_t_def ew2_def Let_def do_classifier_free_guidance_def py_int_def
      sample_edit_args_simps stub_env_simps stub_timesteps_2 sample_tensor_simps
      upt_conv_Cons)

subsection \<open>Seeds and determinism\<close>

lemma seed_rows_explicit:
  "seed_rows randint (Some q) rows r = Inr (ss, r') \<Longrightarrow>
     r' = r \<and> seed_rows randint' (Some q) rows r2 = Inr (ss, r2)"
proof (induction rows arbitrary: ss)
  case Nil
  then show ?case by simp
next
  case (Cons i rows)
  show ?case
  proof (cases q)
    case (PInt n)
    with Cons.prems obtain ss' where
      "seed_rows randint (Some q) rows r = Inr (ss', r')" "ss = n # ss'"
      by (auto split: sum.splits prod.splits)
    with Cons.IH[of ss'] PInt show ?thesis by simp
  next
    case (PList xs)
    with Cons.prems obtain n ss' where
      n: "(if i < length xs then Inr (xs ! i, r)
           else (case py_index xs (- 1) of Inl e \<Rightarrow> Inl e | Inr n \<Rightarrow> Inr (n, r))) = Inr (n, r)"
      and ss': "seed_rows randint (Some q) rows r = Inr (ss', r')" "ss = n # ss'"
      by (auto split: sum.splits prod.splits if_splits)
    from n have n2: "(if i < length xs then Inr (xs ! i, r2)
           else (case py_index xs (- 1) of Inl e \<Rightarrow> Inl e | Inr n \<Rightarrow> Inr (n, r2))) = Inr (n, r2)"
      by (auto split: sum.splits if_splits)
    from Cons.IH[OF ss'(1)] ss'(2) n2 PList show ?thesis by simp
  qed
qed

lemma set_seeds_explicit_deterministic:
  assumes "processed_input_seeds p d ms = Inr (Some q)"
    and "set_seeds p d randint g n ms r = Inr ((gens, seeds), r')"
  shows "set_seeds p d randint' g n ms r2 = Inr ((gens, seeds), r2)"
  using assms seed_rows_explicit[of randint q "[0..<n]" r seeds r' randint' r2]
  by (auto simp: set_seeds_def bind_err_Inr_iff)

text \<open>
  Claim C9. The claim says that with explicit seeds every row's generator is seeded from the
  supplied seeds, so that two runs draw the same noise. \<^verbatim>\<open>set_seeds\<close> does so for an
  integer, a list of integers and a string of digits or of comma-separated integers
  (\<open>set_seeds_explicit_deterministic\<close>), but a list
  of strings falls through every branch of lines 147-157: the seed 42 passed as
  \<^verbatim>\<open>["42"]\<close>, as the repaint, edit and extend nodes pass it, is dropped and the row is
  seeded from the global generator. Two runs from different global states (7 and 8 below)
  get different retake generators; the list \<^verbatim>\<open>[42]\<close> gives the seed 42.
\<close>

theorem string_list_seeds_ignored:
  "set_seeds p d randint g 1 (ListSeeds [StrItem ''42'']) r =
     Inr (([g (fst (randint r))], [fst (randint r)]), snd (randint r)) \<and>
   pipeline_seeds p d randint g 1 (IntSeeds 5) (ListSeeds [StrItem ''42'']) r =
     Inr ([g 5], [g (fst (randint r))]) \<and>
   pipeline_seeds p d (\<lambda>r. (int r, Suc r)) (\<lambda>n. n) 1 (IntSeeds 5) (ListSeeds [StrItem ''42'']) 7
     = Inr ([5], [7]) \<and>
   pipeline_seeds p d (\<lambda>r. (int r, Suc r)) (\<lambda>n. n) 1 (IntSeeds 5) (ListSeeds [StrItem ''42'']) 8
     = Inr ([5], [8]) \<and>
   pipeline_seeds p d (\<lambda>r. (int r, Suc r)) (\<lambda>n. n) 1 (IntSeeds 5) (ListSeeds [IntItem 42]) 7
     = Inr ([5], [42])"
  by (simp add: pipeline_seeds_def set_seeds_def processed_input_seeds_def is_int_item_def
      int_of_item_def split_def)

end
